theory Spec2Isabelle
  imports Main "HOL-Library.Sublist"
begin

section \<open>Python strings\<close>

text \<open>
  Python \<open>str\<close> values are modelled as \<open>string\<close>: a character is a code point from
  U+0000 to U+00FF, so ASCII and Latin-1 text is covered; strings with higher code points
  are outside the model.  \<open>lower\<close> is \<open>str.lower()\<close> on that range: the letters \<open>A\<close> to
  \<open>Z\<close> are moved to \<open>a\<close> to \<open>z\<close>, the capital letters U+00C0 to U+00DE (without the
  multiplication sign U+00D7) are moved up by 32, every other character is kept.
\<close>

definition lower_char :: "char \<Rightarrow> char" where
  "lower_char c =
     (case map_of (zip ''ABCDEFGHIJKLMNOPQRSTUVWXYZ'' ''abcdefghijklmnopqrstuvwxyz'') c of
        Some d \<Rightarrow> d
      | None \<Rightarrow>
          if 192 \<le> (of_char c :: nat) \<and> (of_char c :: nat) \<le> 222 \<and> c \<noteq> CHR 0xD7
          then char_of ((of_char c :: nat) + 32)
          else c)"

definition lower :: "string \<Rightarrow> string" where
  "lower s = map lower_char s"

text \<open>\<open>s.startswith(sub)\<close> and the substring test \<open>sub in s\<close>.\<close>

fun startswith :: "string \<Rightarrow> string \<Rightarrow> bool" where
  "startswith s [] = True"
| "startswith [] (c # sub) = False"
| "startswith (d # s) (c # sub) = (d = c \<and> startswith s sub)"

fun py_in :: "string \<Rightarrow> string \<Rightarrow> bool" where
  "py_in sub [] = (sub = [])"
| "py_in sub (d # s) = (startswith (d # s) sub \<or> py_in sub s)"

text \<open>\<open>sep.join(xs)\<close>.\<close>

fun join :: "string \<Rightarrow> string list \<Rightarrow> string" where
  "join sep [] = []"
| "join sep [x] = x"
| "join sep (x # y # ys) = x @ sep @ join sep (y # ys)"

section \<open>The canonical event and decision model\<close>

text \<open>
  Modelled from the spec: \<open>Verdict\<close> (\<open>ALLOW\<close>, \<open>CONFIRM\<close>, \<open>BLOCK\<close>), \<open>Reason\<close> (the
  two members the specification and the source name), \<open>Decision\<close>
  (\<open>{verdict, reason, details}\<close>), \<open>Tool\<close>, \<open>Agent\<close> and \<open>Media\<close>.  The modules
  \<open>capsem.models\<close> and \<open>capsem.tools\<close> are imported by the proxy but are not among the
  source files; the types follow section 3 of the specification and their uses in the
  source.
\<close>

datatype Verdict = ALLOW | CONFIRM | BLOCK

datatype Reason = SAFE | POLICY_VIOLATION

record Decision =
  verdict :: Verdict
  reason :: Reason
  details :: string

text \<open>
  Python values that travel in JSON dictionaries (tool arguments, tool responses,
  parameter schemas).  A \<open>dict\<close> keeps its insertion order, so it is an association list.
  Floating-point numbers are left out.
\<close>

datatype pyval =
    PyNone
  | PyBool bool
  | PyInt int
  | PyStr string
  | PyList "pyval list"
  | PyDict "(string \<times> pyval) list"

type_synonym pydict = "(string \<times> pyval) list"

record Tool =
  tool_name :: string
  tool_description :: string
  tool_parameters :: pydict

record Agent =
  agent_name :: string
  agent_instructions :: string
  agent_tools :: "Tool list"

datatype Media = Media string

text \<open>
  Modelled from the spec: \<open>DEFAULT_SAFE_DECISION\<close>, the "safe default" decision
  (\<open>ALLOW\<close>, reason \<open>SAFE\<close>) of section 4.1.  Its \<open>details\<close> text is stated nowhere, so
  it is a parameter.
\<close>

definition DEFAULT_SAFE_DECISION :: "string \<Rightarrow> Decision" where
  "DEFAULT_SAFE_DECISION safe_details =
     \<lparr>verdict = ALLOW, reason = SAFE, details = safe_details\<rparr>"

section \<open>Rendering Python values as text\<close>

text \<open>
  \<open>str(v)\<close> and \<open>repr(v)\<close> for the values above, as CPython prints them: integers in
  decimal, \<open>True\<close>, \<open>False\<close>, \<open>None\<close>, strings in quotes with backslash escapes, lists
  and dictionaries with \<open>", "\<close> between the items.  In a string the quote in use and
  the backslash get a backslash, tab, newline and carriage return are written \<open>\t\<close>,
  \<open>\n\<close>, \<open>\r\<close>, and the other characters that are not printable (below U+0020, U+007F,
  U+0080 to U+00A0, U+00AD) are written \<open>\xNN\<close>.
\<close>

fun str_nat :: "nat \<Rightarrow> string" where
  "str_nat n =
     (if n < 10 then [''0123456789'' ! n]
      else str_nat (n div 10) @ [''0123456789'' ! (n mod 10)])"

declare str_nat.simps [simp del]

definition str_int :: "int \<Rightarrow> string" where
  "str_int i = (if i < 0 then CHR ''-'' # str_nat (nat (- i)) else str_nat (nat i))"

definition hex_digit :: "nat \<Rightarrow> char" where
  "hex_digit n = ''0123456789abcdef'' ! n"

definition quote_of :: "string \<Rightarrow> char" where
  "quote_of s =
     (if CHR 0x27 \<in> set s \<and> CHR 0x22 \<notin> set s then CHR 0x22 else CHR 0x27)"

definition escape_char :: "char \<Rightarrow> char \<Rightarrow> string" where
  "escape_char q c =
     (if c = q \<or> c = CHR 0x5C then [CHR 0x5C, c]
      else if c = CHR 0x09 then [CHR 0x5C, CHR ''t'']
      else if c = CHR 0x0A then [CHR 0x5C, CHR ''n'']
      else if c = CHR 0x0D then [CHR 0x5C, CHR ''r'']
      else if (of_char c :: nat) < 32 \<or> c = CHR 0x7F
              \<or> (128 \<le> (of_char c :: nat) \<and> (of_char c :: nat) \<le> 160) \<or> c = CHR 0xAD
        then [CHR 0x5C, CHR ''x'', hex_digit ((of_char c :: nat) div 16),
              hex_digit ((of_char c :: nat) mod 16)]
      else [c])"

definition repr_str :: "string \<Rightarrow> string" where
  "repr_str s = quote_of s # concat (map (escape_char (quote_of s)) s) @ [quote_of s]"

fun py_repr :: "pyval \<Rightarrow> string" where
  "py_repr PyNone = ''None''"
| "py_repr (PyBool b) = (if b then ''True'' else ''False'')"
| "py_repr (PyInt i) = str_int i"
| "py_repr (PyStr s) = repr_str s"
| "py_repr (PyList vs) = ''['' @ join '', '' (map py_repr vs) @ '']''"
| "py_repr (PyDict kvs) =
     ''{'' @ join '', '' (map (\<lambda>kv. repr_str (fst kv) @ '': '' @ py_repr (snd kv)) kvs) @ ''}''"

fun py_str :: "pyval \<Rightarrow> string" where
  "py_str (PyStr s) = s"
| "py_str v = py_repr v"

section \<open>The policy contract and the debug policy\<close>

text \<open>
  Modelled from the spec: the base class \<open>Policy\<close>, which is not among the source files.
  A policy is an object with the eight interception methods of section 4.1; each takes
  the invocation id and the agent first.  The record holds what \<open>DebugPolicy.__init__\<close>
  passes to the base class and the methods \<open>DebugPolicy\<close> overrides.
\<close>

record Policy =
  policy_name :: string
  policy_description :: string
  policy_authors :: string
  policy_url :: string
  on_workflow_start :: "string \<Rightarrow> Agent \<Rightarrow> string \<Rightarrow> Media list \<Rightarrow> Decision"
  on_workflow_end :: "string \<Rightarrow> Agent \<Rightarrow> Decision"
  on_agent_start :: "string \<Rightarrow> Agent \<Rightarrow> Decision"
  on_agent_end :: "string \<Rightarrow> Agent \<Rightarrow> Decision"
  on_tool_call :: "string \<Rightarrow> Agent \<Rightarrow> Tool \<Rightarrow> pydict \<Rightarrow> Decision"
  on_tool_response :: "string \<Rightarrow> Agent \<Rightarrow> Tool \<Rightarrow> pydict \<Rightarrow> Decision"
  on_model_call ::
    "string \<Rightarrow> Agent \<Rightarrow> string \<Rightarrow> string \<Rightarrow> string \<Rightarrow> Media list \<Rightarrow> Decision"
  on_model_response :: "string \<Rightarrow> Agent \<Rightarrow> string \<Rightarrow> string \<Rightarrow> Media list \<Rightarrow> Decision"

definition DEBUG_TRIGGER :: string where
  "DEBUG_TRIGGER = ''capsem_block''"

text \<open>\<open>f"Detected '{self.DEBUG_TRIGGER}' in {place}"\<close>.\<close>

definition detected_in :: "string \<Rightarrow> string" where
  "detected_in place = ''Detected '' @ [CHR 0x27] @ DEBUG_TRIGGER @ [CHR 0x27] @ '' in '' @ place"

definition DebugPolicy_on_workflow_start ::
  "string \<Rightarrow> string \<Rightarrow> Agent \<Rightarrow> string \<Rightarrow> Media list \<Rightarrow> Decision" where
  "DebugPolicy_on_workflow_start safe_details invocation_id agent prompt media =
     DEFAULT_SAFE_DECISION safe_details"

definition DebugPolicy_on_workflow_end :: "string \<Rightarrow> string \<Rightarrow> Agent \<Rightarrow> Decision" where
  "DebugPolicy_on_workflow_end safe_details invocation_id agent =
     DEFAULT_SAFE_DECISION safe_details"

definition DebugPolicy_on_agent_start :: "string \<Rightarrow> string \<Rightarrow> Agent \<Rightarrow> Decision" where
  "DebugPolicy_on_agent_start safe_details invocation_id agent =
     DEFAULT_SAFE_DECISION safe_details"

definition DebugPolicy_on_agent_end :: "string \<Rightarrow> string \<Rightarrow> Agent \<Rightarrow> Decision" where
  "DebugPolicy_on_agent_end safe_details invocation_id agent =
     DEFAULT_SAFE_DECISION safe_details"

text \<open>\<open>", ".join(f"{k}={v}" for k, v in args.items())\<close>.\<close>

definition args_str :: "pydict \<Rightarrow> string" where
  "args_str args = join '', '' (map (\<lambda>kv. fst kv @ ''='' @ py_str (snd kv)) args)"

definition DebugPolicy_on_tool_call ::
  "string \<Rightarrow> string \<Rightarrow> Agent \<Rightarrow> Tool \<Rightarrow> pydict \<Rightarrow> Decision" where
  "DebugPolicy_on_tool_call safe_details invocation_id agent tool args =
     (if py_in DEBUG_TRIGGER (lower (tool_name tool))
      then \<lparr>verdict = BLOCK, reason = POLICY_VIOLATION, details = detected_in ''tool name''\<rparr>
      else if py_in DEBUG_TRIGGER (lower (args_str args))
      then \<lparr>verdict = BLOCK, reason = POLICY_VIOLATION,
            details = detected_in ''tool arguments''\<rparr>
      else DEFAULT_SAFE_DECISION safe_details)"

definition DebugPolicy_on_tool_response ::
  "string \<Rightarrow> string \<Rightarrow> Agent \<Rightarrow> Tool \<Rightarrow> pydict \<Rightarrow> Decision" where
  "DebugPolicy_on_tool_response safe_details invocation_id agent tool response =
     (if py_in ''capsem_block'' (lower (py_str (PyDict response)))
      then \<lparr>verdict = BLOCK, reason = POLICY_VIOLATION,
            details = detected_in ''tool response''\<rparr>
      else DEFAULT_SAFE_DECISION safe_details)"

definition DebugPolicy_on_model_call ::
  "string \<Rightarrow> string \<Rightarrow> Agent \<Rightarrow> string \<Rightarrow> string \<Rightarrow> string \<Rightarrow> Media list \<Rightarrow> Decision" where
  "DebugPolicy_on_model_call safe_details invocation_id agent model_name system_instructions
       prompt media =
     (if py_in ''capsem_block'' (lower prompt)
      then \<lparr>verdict = BLOCK, reason = POLICY_VIOLATION, details = detected_in ''prompt''\<rparr>
      else DEFAULT_SAFE_DECISION safe_details)"

definition DebugPolicy_on_model_response ::
  "string \<Rightarrow> string \<Rightarrow> Agent \<Rightarrow> string \<Rightarrow> string \<Rightarrow> Media list \<Rightarrow> Decision" where
  "DebugPolicy_on_model_response safe_details invocation_id agent response thoughts media =
     (if py_in ''capsem_block'' (lower response)
      then \<lparr>verdict = BLOCK, reason = POLICY_VIOLATION,
            details = detected_in ''model response''\<rparr>
      else DEFAULT_SAFE_DECISION safe_details)"

definition DebugPolicy :: "string \<Rightarrow> Policy" where
  "DebugPolicy safe_details =
     \<lparr>policy_name = ''Debug'',
      policy_description =
        ''Policy used to debug CAPSEM integration. Blocks any occurrence of the word ''
        @ [CHR 0x27] @ ''capsem_block'' @ [CHR 0x27]
        @ '' in prompts, model responses, tool names, tool arguments, or tool responses.'',
      policy_authors = ''Elie Bursztein'',
      policy_url = ''https://github.com/google/capsem/policies/debug'',
      on_workflow_start = DebugPolicy_on_workflow_start safe_details,
      on_workflow_end = DebugPolicy_on_workflow_end safe_details,
      on_agent_start = DebugPolicy_on_agent_start safe_details,
      on_agent_end = DebugPolicy_on_agent_end safe_details,
      on_tool_call = DebugPolicy_on_tool_call safe_details,
      on_tool_response = DebugPolicy_on_tool_response safe_details,
      on_model_call = DebugPolicy_on_model_call safe_details,
      on_model_response = DebugPolicy_on_model_response safe_details\<rparr>"

text \<open>
  \<open>DebugPolicy.from_config\<close>: \<open>config.get("enabled", True)\<close> decides between \<open>None\<close>
  and a fresh instance.  Only the \<open>enabled\<close> key of the dictionary is read.
\<close>

definition DebugPolicy_from_config :: "string \<Rightarrow> bool option \<Rightarrow> Policy option" where
  "DebugPolicy_from_config safe_details enabled =
     (if \<not> (case enabled of None \<Rightarrow> True | Some b \<Rightarrow> b) then None
      else Some (DebugPolicy safe_details))"

section \<open>The security manager\<close>

text \<open>
  Modelled from the spec: \<open>capsem.manager.SecurityManager\<close> is not among the source
  files.  Section 4.2: the manager holds the ordered list of policies, invokes every
  policy in registration order at an interception point and aggregates the results with
  the precedence \<open>BLOCK > CONFIRM > ALLOW\<close>; the first policy producing the
  highest-precedence verdict determines the aggregated decision.  With no policy at all
  the result is the safe default of section 4.1.
\<close>

record SecurityManager =
  policies :: "Policy list"

definition SecurityManager_new :: SecurityManager where
  "SecurityManager_new = \<lparr>policies = []\<rparr>"

definition add_policy :: "SecurityManager \<Rightarrow> Policy \<Rightarrow> SecurityManager" where
  "add_policy sm p = sm\<lparr>policies := policies sm @ [p]\<rparr>"

fun precedence :: "Verdict \<Rightarrow> nat" where
  "precedence ALLOW = 0"
| "precedence CONFIRM = 1"
| "precedence BLOCK = 2"

fun worst :: "Decision \<Rightarrow> Decision list \<Rightarrow> Decision" where
  "worst best [] = best"
| "worst best (d # ds) =
     worst (if precedence (verdict best) < precedence (verdict d) then d else best) ds"

definition aggregate :: "string \<Rightarrow> Decision list \<Rightarrow> Decision" where
  "aggregate safe_details ds =
     (case ds of [] \<Rightarrow> DEFAULT_SAFE_DECISION safe_details | d # rest \<Rightarrow> worst d rest)"

definition SecurityManager_on_tool_call ::
  "string \<Rightarrow> SecurityManager \<Rightarrow> string \<Rightarrow> Agent \<Rightarrow> Tool \<Rightarrow> pydict \<Rightarrow> Decision" where
  "SecurityManager_on_tool_call safe_details sm invocation_id agent tool args =
     aggregate safe_details
       (map (\<lambda>p. on_tool_call p invocation_id agent tool args) (policies sm))"

definition SecurityManager_on_tool_response ::
  "string \<Rightarrow> SecurityManager \<Rightarrow> string \<Rightarrow> Agent \<Rightarrow> Tool \<Rightarrow> pydict \<Rightarrow> Decision" where
  "SecurityManager_on_tool_response safe_details sm invocation_id agent tool response =
     aggregate safe_details
       (map (\<lambda>p. on_tool_response p invocation_id agent tool response) (policies sm))"

definition SecurityManager_on_model_call ::
  "string \<Rightarrow> SecurityManager \<Rightarrow> string \<Rightarrow> Agent \<Rightarrow> string \<Rightarrow> string \<Rightarrow> string \<Rightarrow> Media list
     \<Rightarrow> Decision" where
  "SecurityManager_on_model_call safe_details sm invocation_id agent model_name
       system_instructions prompt media =
     aggregate safe_details
       (map (\<lambda>p. on_model_call p invocation_id agent model_name system_instructions prompt media)
          (policies sm))"

definition SecurityManager_on_model_response ::
  "string \<Rightarrow> SecurityManager \<Rightarrow> string \<Rightarrow> Agent \<Rightarrow> string \<Rightarrow> string \<Rightarrow> Media list \<Rightarrow> Decision"
  where
  "SecurityManager_on_model_response safe_details sm invocation_id agent response thoughts
       media =
     aggregate safe_details
       (map (\<lambda>p. on_model_response p invocation_id agent response thoughts media)
          (policies sm))"

section \<open>Startup: \<open>capsem_integration\<close>\<close>

text \<open>
  The module reads \<open>PROXY_CONFIG_DIR\<close>, tests the path and calls
  \<open>capsem.config_loader.load_policies_from_directory\<close>, which is not among the source
  files.  The three are parameters: the value of the environment variable, the outcome of
  \<open>Path(config_dir).exists()\<close>, and the loader, which returns a manager or raises.
\<close>

record startup =
  PROXY_CONFIG_DIR :: "string option"
  path_exists :: "string \<Rightarrow> bool"
  load_policies_from_directory :: "string \<Rightarrow> unit + SecurityManager"

definition default_security_manager :: "string \<Rightarrow> SecurityManager" where
  "default_security_manager safe_details =
     add_policy SecurityManager_new (DebugPolicy safe_details)"

definition capsem_integration_security_manager :: "string \<Rightarrow> startup \<Rightarrow> SecurityManager" where
  "capsem_integration_security_manager safe_details st =
     (case PROXY_CONFIG_DIR st of
        None \<Rightarrow> default_security_manager safe_details
      | Some config_dir \<Rightarrow>
          if config_dir \<noteq> [] \<and> path_exists st config_dir
          then (case load_policies_from_directory st config_dir of
                  Inr sm \<Rightarrow> sm
                | Inl e \<Rightarrow> default_security_manager safe_details)
          else default_security_manager safe_details)"

section \<open>Wire format of the Gemini endpoints\<close>

text \<open>
  The request and response bodies are JSON.  The records hold the keys the handlers
  read; a key that may be missing is an \<open>option\<close>.  \<open>Part\<close>, \<open>Content\<close> and
  \<open>GenerateContentResponse\<close> are the classes of \<open>google.genai.types\<close> with the fields
  the handlers use.  A function call or function response carries its name.
\<close>

record FunctionCall =
  fc_name :: string
  fc_args :: "pydict option"

record FunctionResponse =
  fr_name :: string
  fr_response :: "pydict option"

record Part =
  part_text :: "string option"
  part_thought :: "bool option"
  part_function_call :: "FunctionCall option"
  part_function_response :: "FunctionResponse option"

record Content =
  content_role :: "string option"
  content_parts :: "Part list option"

text \<open>
  An entry of \<open>body["contents"]\<close> is a dictionary with these keys.  \<open>Content(**content)\<close>
  validates it and either accepts it or raises (for instance on a key the class does not
  know); the entry records which.
\<close>

datatype content_entry = Rejected Content | Accepted Content

fun entry_dict :: "content_entry \<Rightarrow> Content" where
  "entry_dict (Rejected c) = c"
| "entry_dict (Accepted c) = c"

record func_decl =
  fd_name :: "string option"
  fd_description :: "string option"
  fd_parameters :: "pydict option"

record tool_def =
  td_type :: "string option"
  td_function :: "func_decl option"
  td_functionDeclarations :: "func_decl list option"

record body =
  body_tools :: "tool_def list option"
  body_contents :: "content_entry list option"

text \<open>\<open>request.json()\<close> returns the body or raises with a message.\<close>

record Request =
  x_goog_api_key :: string
  request_json :: "string + body"

record Candidate =
  candidate_content :: "Content option"

record GenerateContentResponse =
  candidates :: "Candidate list option"

section \<open>Effects of a handler\<close>

text \<open>
  A handler raises or returns, and on the way it calls the security manager and the
  upstream provider.  A run is the list of these calls in order, with the decision each
  manager call returned, and the outcome.  Log lines are not part of the model.
\<close>

datatype HTTPException = HTTPException (status_code: nat) (detail: string)

datatype exc =
    Raised HTTPException
  | ValueError string
  | HTTPStatusError nat
  | HTTPError
  | OtherException

datatype interception =
    At_tool_response string Agent Tool pydict
  | At_model_call string Agent string string string "Media list"
  | At_tool_call string Agent Tool pydict
  | At_model_response string Agent string string "Media list"

datatype event =
    Evaluated interception Decision
  | Forwarded string body string
  | Stream_opened string body string

datatype reply = Returned GenerateContentResponse | StreamingResponse "string list"

type_synonym 'a run = "event list \<times> (exc + 'a)"

definition ok :: "'a \<Rightarrow> 'a run" where
  "ok x = ([], Inr x)"

definition raise :: "exc \<Rightarrow> 'a run" where
  "raise e = ([], Inl e)"

definition bind_run :: "'a run \<Rightarrow> ('a \<Rightarrow> 'b run) \<Rightarrow> 'b run" where
  "bind_run m k =
     (case snd m of
        Inl e \<Rightarrow> (fst m, Inl e)
      | Inr x \<Rightarrow> (fst m @ fst (k x), snd (k x)))"

text \<open>
  What the module takes from outside the source files: the details text of the safe
  default decision, \<open>get_user_id_from_auth\<close>, the request id \<open>uuid.uuid4().hex\<close>, and the
  two methods of \<open>GeminiProvider\<close>.  \<open>generate_content\<close> returns the raw response, which
  \<open>GenerateContentResponse(**raw_response)\<close> accepts (\<open>Some\<close>) or not (\<open>None\<close>), or raises.
\<close>

record env =
  safe_text :: string
  get_user_id_from_auth :: "string \<Rightarrow> string"
  uuid4_hex :: string
  provider_generate_content ::
    "string \<Rightarrow> body \<Rightarrow> string \<Rightarrow> exc + GenerateContentResponse option"
  provider_generate_content_stream :: "string \<Rightarrow> body \<Rightarrow> string \<Rightarrow> string list"

definition security_manager_on_tool_response ::
  "env \<Rightarrow> SecurityManager \<Rightarrow> string \<Rightarrow> Agent \<Rightarrow> Tool \<Rightarrow> pydict \<Rightarrow> Decision run" where
  "security_manager_on_tool_response env sm invocation_id agent tool response =
     ([Evaluated (At_tool_response invocation_id agent tool response)
         (SecurityManager_on_tool_response (safe_text env) sm invocation_id agent tool response)],
      Inr (SecurityManager_on_tool_response (safe_text env) sm invocation_id agent tool response))"

definition security_manager_on_tool_call ::
  "env \<Rightarrow> SecurityManager \<Rightarrow> string \<Rightarrow> Agent \<Rightarrow> Tool \<Rightarrow> pydict \<Rightarrow> Decision run" where
  "security_manager_on_tool_call env sm invocation_id agent tool args =
     ([Evaluated (At_tool_call invocation_id agent tool args)
         (SecurityManager_on_tool_call (safe_text env) sm invocation_id agent tool args)],
      Inr (SecurityManager_on_tool_call (safe_text env) sm invocation_id agent tool args))"

definition security_manager_on_model_call ::
  "env \<Rightarrow> SecurityManager \<Rightarrow> string \<Rightarrow> Agent \<Rightarrow> string \<Rightarrow> string \<Rightarrow> string \<Rightarrow> Media list
     \<Rightarrow> Decision run" where
  "security_manager_on_model_call env sm invocation_id agent model_name system_instructions
       prompt media =
     ([Evaluated
         (At_model_call invocation_id agent model_name system_instructions prompt media)
         (SecurityManager_on_model_call (safe_text env) sm invocation_id agent model_name
            system_instructions prompt media)],
      Inr (SecurityManager_on_model_call (safe_text env) sm invocation_id agent model_name
             system_instructions prompt media))"

definition security_manager_on_model_response ::
  "env \<Rightarrow> SecurityManager \<Rightarrow> string \<Rightarrow> Agent \<Rightarrow> string \<Rightarrow> string \<Rightarrow> Media list
     \<Rightarrow> Decision run" where
  "security_manager_on_model_response env sm invocation_id agent response thoughts media =
     ([Evaluated (At_model_response invocation_id agent response thoughts media)
         (SecurityManager_on_model_response (safe_text env) sm invocation_id agent response
            thoughts media)],
      Inr (SecurityManager_on_model_response (safe_text env) sm invocation_id agent response
             thoughts media))"

definition gemini_provider_generate_content ::
  "env \<Rightarrow> string \<Rightarrow> body \<Rightarrow> string \<Rightarrow> GenerateContentResponse option run" where
  "gemini_provider_generate_content env model b api_key =
     ([Forwarded model b api_key], provider_generate_content env model b api_key)"

definition gemini_provider_generate_content_stream ::
  "env \<Rightarrow> string \<Rightarrow> body \<Rightarrow> string \<Rightarrow> string list run" where
  "gemini_provider_generate_content_stream env model b api_key =
     ([Stream_opened model b api_key], Inr (provider_generate_content_stream env model b api_key))"

section \<open>\<open>create_agent\<close>\<close>

text \<open>\<open>func.get("description", "") or "No description provided"\<close>.\<close>

definition description_or_placeholder :: "string option \<Rightarrow> string" where
  "description_or_placeholder d =
     (case d of
        None \<Rightarrow> ''No description provided''
      | Some t \<Rightarrow> if t = [] then ''No description provided'' else t)"

definition default_parameters :: pydict where
  "default_parameters = [(''type'', PyStr ''object''), (''properties'', PyDict [])]"

text \<open>The \<open>Tool\<close> built from a function dictionary (both handlers and \<open>create_agent\<close>).\<close>

definition tool_of_func :: "func_decl \<Rightarrow> Tool" where
  "tool_of_func func =
     \<lparr>tool_name = (case fd_name func of None \<Rightarrow> ''unknown'' | Some n \<Rightarrow> n),
      tool_description = description_or_placeholder (fd_description func),
      tool_parameters =
        (case fd_parameters func of None \<Rightarrow> default_parameters | Some ps \<Rightarrow> ps)\<rparr>"

definition empty_func :: func_decl where
  "empty_func = \<lparr>fd_name = None, fd_description = None, fd_parameters = None\<rparr>"

fun capsem_tools :: "tool_def list \<Rightarrow> Tool list \<Rightarrow> Tool list" where
  "capsem_tools [] acc = acc"
| "capsem_tools (td # tds) acc =
     capsem_tools tds
       (if td_type td = Some ''function''
        then acc @ [tool_of_func (case td_function td of None \<Rightarrow> empty_func | Some f \<Rightarrow> f)]
        else acc)"

definition create_agent :: "string \<Rightarrow> tool_def list \<Rightarrow> Agent" where
  "create_agent user_id tools =
     \<lparr>agent_name = ''proxy-user-'' @ user_id,
      agent_instructions = ''OpenAI API proxy user'',
      agent_tools = capsem_tools tools []\<rparr>"

section \<open>The Gemini endpoints\<close>

definition extract_gemini_api_key :: "string \<Rightarrow> string run" where
  "extract_gemini_api_key key =
     (if key = [] then raise (ValueError ''Missing x-goog-api-key header'') else ok key)"

text \<open>\<open>_decide\<close> of \<open>api/gemini.py\<close> and \<open>decide\<close> of \<open>api/utils.py\<close>.\<close>

definition gemini_decide :: "string \<Rightarrow> Decision \<Rightarrow> string \<Rightarrow> unit run" where
  "gemini_decide step decision request_id =
     (if verdict decision = BLOCK
      then raise (Raised (HTTPException 403
                    (''Request blocked by security policy: '' @ details decision)))
      else ok ())"

definition decide :: "string \<Rightarrow> Decision \<Rightarrow> string \<Rightarrow> unit run" where
  "decide step decision request_id =
     (if verdict decision = BLOCK
      then raise (Raised (HTTPException 403
                    (''Request blocked by security policy: '' @ details decision)))
      else ok ())"

definition get_tools :: "body \<Rightarrow> tool_def list" where
  "get_tools b = (case body_tools b of None \<Rightarrow> [] | Some ts \<Rightarrow> ts)"

definition get_contents :: "body \<Rightarrow> content_entry list" where
  "get_contents b = (case body_contents b of None \<Rightarrow> [] | Some cs \<Rightarrow> cs)"

definition newline :: string where
  "newline = [CHR 0x0A]"

subsection \<open>\<open>generate_content\<close>\<close>

text \<open>
  One step of \<open>for part in content.parts\<close>: a part with non-empty text goes to the
  thoughts when \<open>part.thought\<close> is true and to the prompt otherwise.  The pair is
  \<open>(prompt_parts, thoughts_parts)\<close>.
\<close>

definition split_part :: "Part \<Rightarrow> string list \<times> string list \<Rightarrow> string list \<times> string list" where
  "split_part part acc =
     (case part_text part of
        None \<Rightarrow> acc
      | Some t \<Rightarrow>
          if t = [] then acc
          else if part_thought part = Some True then (fst acc, snd acc @ [t])
          else (fst acc @ [t], snd acc))"

fun split_parts :: "Part list \<Rightarrow> string list \<times> string list \<Rightarrow> string list \<times> string list" where
  "split_parts [] acc = acc"
| "split_parts (part # ps) acc = split_parts ps (split_part part acc)"

text \<open>
  The block under \<open># on tool call response\<close>.  In the source it stands after the loop
  over the parts, so \<open>part\<close> is the last part of the entry.
\<close>

definition check_function_response ::
  "env \<Rightarrow> SecurityManager \<Rightarrow> string \<Rightarrow> Agent \<Rightarrow> Part \<Rightarrow> unit run" where
  "check_function_response env sm request_id agent part =
     (case part_function_response part of
        None \<Rightarrow> ok ()
      | Some fr \<Rightarrow>
          bind_run
            (security_manager_on_tool_response env sm request_id agent
               \<lparr>tool_name = fr_name fr, tool_description = ''Function response from model'',
                tool_parameters = []\<rparr>
               (case fr_response fr of None \<Rightarrow> [] | Some r \<Rightarrow> r))
            (\<lambda>decision. gemini_decide ''on_tool_response'' decision request_id))"

fun scan_contents ::
  "env \<Rightarrow> SecurityManager \<Rightarrow> string \<Rightarrow> Agent \<Rightarrow> content_entry list
     \<Rightarrow> string list \<times> string list \<Rightarrow> (string list \<times> string list) run" where
  "scan_contents env sm request_id agent [] acc = ok acc"
| "scan_contents env sm request_id agent (Rejected c # cs) acc =
     scan_contents env sm request_id agent cs acc"
| "scan_contents env sm request_id agent (Accepted c # cs) acc =
     (case content_parts c of
        None \<Rightarrow> scan_contents env sm request_id agent cs acc
      | Some ps \<Rightarrow>
          if ps = [] then scan_contents env sm request_id agent cs acc
          else bind_run (check_function_response env sm request_id agent (last ps))
                 (\<lambda>u. scan_contents env sm request_id agent cs (split_parts ps acc)))"

text \<open>The block under \<open># analyze function call\<close>, inside the loop over the parts.\<close>

definition check_function_call ::
  "env \<Rightarrow> SecurityManager \<Rightarrow> string \<Rightarrow> Agent \<Rightarrow> Part \<Rightarrow> unit run" where
  "check_function_call env sm request_id agent part =
     (case part_function_call part of
        None \<Rightarrow> ok ()
      | Some fc \<Rightarrow>
          bind_run
            (security_manager_on_tool_call env sm request_id agent
               \<lparr>tool_name = fc_name fc, tool_description = ''Function call from model'',
                tool_parameters = (case fc_args fc of None \<Rightarrow> [] | Some a \<Rightarrow> a)\<rparr>
               (case fc_args fc of None \<Rightarrow> [] | Some a \<Rightarrow> a))
            (\<lambda>tool_decision. gemini_decide ''on_tool_call'' tool_decision request_id))"

fun check_parts ::
  "env \<Rightarrow> SecurityManager \<Rightarrow> string \<Rightarrow> Agent \<Rightarrow> Part list
     \<Rightarrow> string list \<times> string list \<Rightarrow> (string list \<times> string list) run" where
  "check_parts env sm request_id agent [] acc = ok acc"
| "check_parts env sm request_id agent (part # ps) acc =
     bind_run (check_function_call env sm request_id agent part)
       (\<lambda>u. check_parts env sm request_id agent ps (split_part part acc))"

fun check_candidates ::
  "env \<Rightarrow> SecurityManager \<Rightarrow> string \<Rightarrow> Agent \<Rightarrow> Candidate list
     \<Rightarrow> string list \<times> string list \<Rightarrow> (string list \<times> string list) run" where
  "check_candidates env sm request_id agent [] acc = ok acc"
| "check_candidates env sm request_id agent (candidate # cs) acc =
     (case candidate_content candidate of
        None \<Rightarrow> check_candidates env sm request_id agent cs acc
      | Some content \<Rightarrow>
          (case content_parts content of
             None \<Rightarrow> check_candidates env sm request_id agent cs acc
           | Some ps \<Rightarrow>
               if ps = [] then check_candidates env sm request_id agent cs acc
               else bind_run (check_parts env sm request_id agent ps acc)
                      (\<lambda>acc'. check_candidates env sm request_id agent cs acc')))"

text \<open>From \<open># CAPSEM: Check model response\<close> to \<open>return response\<close>.\<close>

definition check_response ::
  "env \<Rightarrow> SecurityManager \<Rightarrow> string \<Rightarrow> Agent \<Rightarrow> GenerateContentResponse \<Rightarrow> reply run" where
  "check_response env sm request_id agent response =
     (case candidates response of
        None \<Rightarrow> ok (Returned response)
      | Some cs \<Rightarrow>
          if cs = [] then ok (Returned response)
          else
            bind_run (check_candidates env sm request_id agent cs ([], []))
              (\<lambda>acc.
            bind_run
              (security_manager_on_model_response env sm request_id agent
                 (join newline (fst acc)) (join newline (snd acc)) [])
              (\<lambda>response_decision.
            bind_run (gemini_decide ''on_model_response'' response_decision request_id)
              (\<lambda>u. ok (Returned response)))))"

text \<open>From \<open># ON_MODEL_CALL\<close> to the end of the \<open>try\<close> block.\<close>

definition check_and_forward ::
  "env \<Rightarrow> SecurityManager \<Rightarrow> string \<Rightarrow> string \<Rightarrow> body \<Rightarrow> string \<Rightarrow> Agent \<Rightarrow> reply run" where
  "check_and_forward env sm model api_key b request_id agent =
     bind_run (scan_contents env sm request_id agent (get_contents b) ([], []))
       (\<lambda>acc.
     bind_run
       (security_manager_on_model_call env sm request_id agent model []
          (join newline (fst acc)) [])
       (\<lambda>decision.
     bind_run (gemini_decide ''on_model_call'' decision request_id)
       (\<lambda>u.
     bind_run (gemini_provider_generate_content env model b api_key)
       (\<lambda>raw_response.
     bind_run
       (case raw_response of
          None \<Rightarrow> raise (Raised (HTTPException 502 ''Invalid response from provider''))
        | Some response \<Rightarrow> ok response)
       (\<lambda>response. check_response env sm request_id agent response)))))"

definition generate_content_try ::
  "env \<Rightarrow> SecurityManager \<Rightarrow> string \<Rightarrow> Request \<Rightarrow> reply run" where
  "generate_content_try env sm model request =
     bind_run (extract_gemini_api_key (x_goog_api_key request))
       (\<lambda>api_key.
     bind_run
       (case request_json request of
          Inl e \<Rightarrow> raise (ValueError (''Invalid JSON in request body: '' @ e))
        | Inr b \<Rightarrow> ok b)
       (\<lambda>b.
     check_and_forward env sm model api_key b (uuid4_hex env)
       (create_agent (get_user_id_from_auth env (''Bearer '' @ api_key)) (get_tools b))))"

text \<open>The \<open>except\<close> clauses of \<open>generate_content\<close>, in their order.\<close>

fun generate_content_except :: "exc \<Rightarrow> HTTPException" where
  "generate_content_except (Raised h) = h"
| "generate_content_except (ValueError e) = HTTPException 400 e"
| "generate_content_except (HTTPStatusError code) = HTTPException code ''Upstream provider error''"
| "generate_content_except HTTPError = HTTPException 502 ''Bad gateway''"
| "generate_content_except OtherException = HTTPException 500 ''Internal server error''"

definition generate_content ::
  "env \<Rightarrow> SecurityManager \<Rightarrow> string \<Rightarrow> Request \<Rightarrow> event list \<times> (HTTPException + reply)" where
  "generate_content env sm model request =
     (fst (generate_content_try env sm model request),
      case snd (generate_content_try env sm model request) of
        Inl e \<Rightarrow> Inl (generate_content_except e)
      | Inr r \<Rightarrow> Inr r)"

subsection \<open>\<open>stream_generate_content\<close>\<close>

text \<open>
  The streaming handler reads the entries of \<open>contents\<close> as dictionaries:
  \<open>content.get("role", "user")\<close>, \<open>content.get("parts", [])\<close>, and for every part with a
  \<open>text\<close> key the line \<open>f"{role}: {part['text']}"\<close>.
\<close>

fun role_lines :: "string \<Rightarrow> Part list \<Rightarrow> string list \<Rightarrow> string list" where
  "role_lines r [] prompt_parts = prompt_parts"
| "role_lines r (part # ps) prompt_parts =
     role_lines r ps
       (case part_text part of
          None \<Rightarrow> prompt_parts
        | Some t \<Rightarrow> prompt_parts @ [r @ '': '' @ t])"

fun stream_prompt_parts :: "content_entry list \<Rightarrow> string list \<Rightarrow> string list" where
  "stream_prompt_parts [] prompt_parts = prompt_parts"
| "stream_prompt_parts (content # cs) prompt_parts =
     stream_prompt_parts cs
       (role_lines
          (case content_role (entry_dict content) of None \<Rightarrow> ''user'' | Some r \<Rightarrow> r)
          (case content_parts (entry_dict content) of None \<Rightarrow> [] | Some ps \<Rightarrow> ps)
          prompt_parts)"

text \<open>The check of one declared function, with \<open>args={}\<close>.\<close>

definition check_func_decl ::
  "env \<Rightarrow> SecurityManager \<Rightarrow> string \<Rightarrow> Agent \<Rightarrow> func_decl \<Rightarrow> unit run" where
  "check_func_decl env sm request_id agent func_decl =
     bind_run (security_manager_on_tool_call env sm request_id agent (tool_of_func func_decl) [])
       (\<lambda>tool_decision.
          if verdict tool_decision = BLOCK
          then raise (Raised (HTTPException 403
                        (''Tool blocked by security policy: '' @ details tool_decision)))
          else ok ())"

fun check_func_decls ::
  "env \<Rightarrow> SecurityManager \<Rightarrow> string \<Rightarrow> Agent \<Rightarrow> func_decl list \<Rightarrow> unit run" where
  "check_func_decls env sm request_id agent [] = ok ()"
| "check_func_decls env sm request_id agent (func_decl # fs) =
     bind_run (check_func_decl env sm request_id agent func_decl)
       (\<lambda>u. check_func_decls env sm request_id agent fs)"

fun check_tool_defs ::
  "env \<Rightarrow> SecurityManager \<Rightarrow> string \<Rightarrow> Agent \<Rightarrow> tool_def list \<Rightarrow> unit run" where
  "check_tool_defs env sm request_id agent [] = ok ()"
| "check_tool_defs env sm request_id agent (td # tds) =
     bind_run
       (case td_functionDeclarations td of
          None \<Rightarrow> ok ()
        | Some fs \<Rightarrow> check_func_decls env sm request_id agent fs)
       (\<lambda>u. check_tool_defs env sm request_id agent tds)"

definition stream_check_and_forward ::
  "env \<Rightarrow> SecurityManager \<Rightarrow> string \<Rightarrow> string \<Rightarrow> body \<Rightarrow> string \<Rightarrow> Agent \<Rightarrow> reply run" where
  "stream_check_and_forward env sm model api_key b request_id agent =
     bind_run
       (security_manager_on_model_call env sm request_id agent model []
          (join newline (stream_prompt_parts (get_contents b) [])) [])
       (\<lambda>decision.
     bind_run
       (if verdict decision = BLOCK
        then raise (Raised (HTTPException 403
                      (''Request blocked by security policy: '' @ details decision)))
        else ok ())
       (\<lambda>u.
     bind_run (check_tool_defs env sm request_id agent (get_tools b))
       (\<lambda>u.
     bind_run (gemini_provider_generate_content_stream env model b api_key)
       (\<lambda>stream. ok (StreamingResponse stream)))))"

definition stream_generate_content_try ::
  "env \<Rightarrow> SecurityManager \<Rightarrow> string \<Rightarrow> Request \<Rightarrow> reply run" where
  "stream_generate_content_try env sm model request =
     bind_run (extract_gemini_api_key (x_goog_api_key request))
       (\<lambda>api_key.
     bind_run
       (case request_json request of
          Inl e \<Rightarrow> raise (ValueError e)
        | Inr b \<Rightarrow> ok b)
       (\<lambda>b.
     stream_check_and_forward env sm model api_key b (uuid4_hex env)
       (create_agent (get_user_id_from_auth env (''Bearer '' @ api_key)) (get_tools b))))"

text \<open>
  The \<open>except\<close> clauses of \<open>stream_generate_content\<close>: there is none for
  \<open>httpx.HTTPStatusError\<close>, which is an \<open>httpx.HTTPError\<close>.
\<close>

fun stream_generate_content_except :: "exc \<Rightarrow> HTTPException" where
  "stream_generate_content_except (Raised h) = h"
| "stream_generate_content_except (ValueError e) = HTTPException 400 e"
| "stream_generate_content_except (HTTPStatusError code) = HTTPException 502 ''Bad gateway''"
| "stream_generate_content_except HTTPError = HTTPException 502 ''Bad gateway''"
| "stream_generate_content_except OtherException = HTTPException 500 ''Internal server error''"

definition stream_generate_content ::
  "env \<Rightarrow> SecurityManager \<Rightarrow> string \<Rightarrow> Request \<Rightarrow> event list \<times> (HTTPException + reply)" where
  "stream_generate_content env sm model request =
     (fst (stream_generate_content_try env sm model request),
      case snd (stream_generate_content_try env sm model request) of
        Inl e \<Rightarrow> Inl (stream_generate_content_except e)
      | Inr r \<Rightarrow> Inr r)"

section \<open>Describing a run\<close>

text \<open>
  The checks of a handler, as a list: each is the event of one call of the security
  manager.  A handler works through its checks in order and stops with status 403 at the
  first one whose decision is \<open>BLOCK\<close>.  The lemmas of the next section show that the
  loops of the handlers do exactly this.
\<close>

text \<open>
  \<open>checked es\<close> is the part of the checks \<open>es\<close> that is evaluated: all of them up to
  and including the first blocking one.  \<open>run_checks\<close> is the run that evaluates them and
  raises 403 with the details of the first blocking decision.
\<close>

fun blocking :: "event \<Rightarrow> bool" where
  "blocking (Evaluated i d) = (verdict d = BLOCK)"
| "blocking (Forwarded m b k) = False"
| "blocking (Stream_opened m b k) = False"

fun checked :: "event list \<Rightarrow> event list" where
  "checked [] = []"
| "checked (e # es) = (if blocking e then [e] else e # checked es)"

fun first_blocking :: "event list \<Rightarrow> Decision option" where
  "first_blocking [] = None"
| "first_blocking (Evaluated i d # es) = (if verdict d = BLOCK then Some d else first_blocking es)"
| "first_blocking (e # es) = first_blocking es"

definition run_checks :: "string \<Rightarrow> event list \<Rightarrow> unit run" where
  "run_checks pfx es =
     (checked es,
      case first_blocking es of
        None \<Rightarrow> Inr ()
      | Some d \<Rightarrow> Inl (Raised (HTTPException 403 (pfx @ details d))))"

definition request_blocked :: string where
  "request_blocked = ''Request blocked by security policy: ''"

text \<open>
  The checks of \<open>generate_content\<close> before the provider is called: for every accepted
  entry with parts whose last part holds a function response, \<open>on_tool_response\<close> on that
  part; then \<open>on_model_call\<close> on the assembled prompt.  \<open>split_contents\<close> is the loop
  over the contents without its checks, so \<open>assembled_prompt\<close> is the prompt that the
  handler joins from \<open>prompt_parts\<close>.
\<close>

definition response_check ::
  "env \<Rightarrow> SecurityManager \<Rightarrow> string \<Rightarrow> Agent \<Rightarrow> FunctionResponse \<Rightarrow> event" where
  "response_check env sm request_id agent fr =
     Evaluated
       (At_tool_response request_id agent
          \<lparr>tool_name = fr_name fr, tool_description = ''Function response from model'',
           tool_parameters = []\<rparr>
          (case fr_response fr of None \<Rightarrow> [] | Some r \<Rightarrow> r))
       (SecurityManager_on_tool_response (safe_text env) sm request_id agent
          \<lparr>tool_name = fr_name fr, tool_description = ''Function response from model'',
           tool_parameters = []\<rparr>
          (case fr_response fr of None \<Rightarrow> [] | Some r \<Rightarrow> r))"

fun response_checks ::
  "env \<Rightarrow> SecurityManager \<Rightarrow> string \<Rightarrow> Agent \<Rightarrow> content_entry list \<Rightarrow> event list" where
  "response_checks env sm request_id agent [] = []"
| "response_checks env sm request_id agent (Rejected c # cs) =
     response_checks env sm request_id agent cs"
| "response_checks env sm request_id agent (Accepted c # cs) =
     (case content_parts c of
        None \<Rightarrow> []
      | Some ps \<Rightarrow>
          if ps = [] then []
          else (case part_function_response (last ps) of
                  None \<Rightarrow> []
                | Some fr \<Rightarrow> [response_check env sm request_id agent fr]))
     @ response_checks env sm request_id agent cs"

fun split_contents ::
  "content_entry list \<Rightarrow> string list \<times> string list \<Rightarrow> string list \<times> string list" where
  "split_contents [] acc = acc"
| "split_contents (Rejected c # cs) acc = split_contents cs acc"
| "split_contents (Accepted c # cs) acc =
     split_contents cs
       (case content_parts c of None \<Rightarrow> acc | Some ps \<Rightarrow> split_parts ps acc)"

definition tool_blocked :: string where
  "tool_blocked = ''Tool blocked by security policy: ''"

definition model_call_check ::
  "env \<Rightarrow> SecurityManager \<Rightarrow> string \<Rightarrow> Agent \<Rightarrow> string \<Rightarrow> string \<Rightarrow> event" where
  "model_call_check env sm request_id agent model prompt =
     Evaluated (At_model_call request_id agent model [] prompt [])
       (SecurityManager_on_model_call (safe_text env) sm request_id agent model [] prompt [])"

text \<open>
  The checks of \<open>generate_content\<close> on a response with candidates: \<open>on_tool_call\<close> for
  every part with a function call, in the order of the candidates and their parts, then
  \<open>on_model_response\<close> on the joined texts and thoughts.
\<close>

definition call_check ::
  "env \<Rightarrow> SecurityManager \<Rightarrow> string \<Rightarrow> Agent \<Rightarrow> FunctionCall \<Rightarrow> event" where
  "call_check env sm request_id agent fc =
     Evaluated
       (At_tool_call request_id agent
          \<lparr>tool_name = fc_name fc, tool_description = ''Function call from model'',
           tool_parameters = (case fc_args fc of None \<Rightarrow> [] | Some a \<Rightarrow> a)\<rparr>
          (case fc_args fc of None \<Rightarrow> [] | Some a \<Rightarrow> a))
       (SecurityManager_on_tool_call (safe_text env) sm request_id agent
          \<lparr>tool_name = fc_name fc, tool_description = ''Function call from model'',
           tool_parameters = (case fc_args fc of None \<Rightarrow> [] | Some a \<Rightarrow> a)\<rparr>
          (case fc_args fc of None \<Rightarrow> [] | Some a \<Rightarrow> a))"

fun part_checks ::
  "env \<Rightarrow> SecurityManager \<Rightarrow> string \<Rightarrow> Agent \<Rightarrow> Part list \<Rightarrow> event list" where
  "part_checks env sm request_id agent [] = []"
| "part_checks env sm request_id agent (part # ps) =
     (case part_function_call part of
        None \<Rightarrow> []
      | Some fc \<Rightarrow> [call_check env sm request_id agent fc])
     @ part_checks env sm request_id agent ps"

fun candidate_parts :: "Candidate list \<Rightarrow> Part list" where
  "candidate_parts [] = []"
| "candidate_parts (candidate # cs) =
     (case candidate_content candidate of
        None \<Rightarrow> []
      | Some content \<Rightarrow> (case content_parts content of None \<Rightarrow> [] | Some ps \<Rightarrow> ps))
     @ candidate_parts cs"

definition model_response_check ::
  "env \<Rightarrow> SecurityManager \<Rightarrow> string \<Rightarrow> Agent \<Rightarrow> Part list \<Rightarrow> event" where
  "model_response_check env sm request_id agent ps =
     Evaluated
       (At_model_response request_id agent
          (join newline (fst (split_parts ps ([], []))))
          (join newline (snd (split_parts ps ([], [])))) [])
       (SecurityManager_on_model_response (safe_text env) sm request_id agent
          (join newline (fst (split_parts ps ([], []))))
          (join newline (snd (split_parts ps ([], [])))) [])"

text \<open>
  The checks of \<open>stream_generate_content\<close>: \<open>on_model_call\<close> on its own prompt, then
  \<open>on_tool_call\<close> for every entry of every \<open>functionDeclarations\<close> list of the tools.
\<close>

definition tool_precheck ::
  "env \<Rightarrow> SecurityManager \<Rightarrow> string \<Rightarrow> Agent \<Rightarrow> func_decl \<Rightarrow> event" where
  "tool_precheck env sm request_id agent func_decl =
     Evaluated (At_tool_call request_id agent (tool_of_func func_decl) [])
       (SecurityManager_on_tool_call (safe_text env) sm request_id agent
          (tool_of_func func_decl) [])"

fun declared_functions :: "tool_def list \<Rightarrow> func_decl list" where
  "declared_functions [] = []"
| "declared_functions (td # tds) =
     (case td_functionDeclarations td of None \<Rightarrow> [] | Some fs \<Rightarrow> fs)
     @ declared_functions tds"

definition request_agent :: "env \<Rightarrow> string \<Rightarrow> body \<Rightarrow> Agent" where
  "request_agent env api_key b =
     create_agent (get_user_id_from_auth env (''Bearer '' @ api_key)) (get_tools b)"

definition assembled_prompt :: "body \<Rightarrow> string" where
  "assembled_prompt b = join newline (fst (split_contents (get_contents b) ([], [])))"

definition preflight_checks ::
  "env \<Rightarrow> SecurityManager \<Rightarrow> string \<Rightarrow> Agent \<Rightarrow> string \<Rightarrow> body \<Rightarrow> event list" where
  "preflight_checks env sm request_id agent model b =
     response_checks env sm request_id agent (get_contents b)
     @ [model_call_check env sm request_id agent model (assembled_prompt b)]"

definition postflight_checks ::
  "env \<Rightarrow> SecurityManager \<Rightarrow> string \<Rightarrow> Agent \<Rightarrow> GenerateContentResponse \<Rightarrow> event list" where
  "postflight_checks env sm request_id agent response =
     (case candidates response of
        None \<Rightarrow> []
      | Some cs \<Rightarrow>
          if cs = [] then []
          else part_checks env sm request_id agent (candidate_parts cs)
               @ [model_response_check env sm request_id agent (candidate_parts cs)])"

text \<open>
  Kinds of events.
\<close>

fun forwarded :: "event \<Rightarrow> bool" where
  "forwarded (Forwarded m b k) = True"
| "forwarded e = False"

fun stream_opened :: "event \<Rightarrow> bool" where
  "stream_opened (Stream_opened m b k) = True"
| "stream_opened e = False"

fun at_model_call :: "interception \<Rightarrow> bool" where
  "at_model_call (At_model_call request_id agent model system_instructions prompt media) = True"
| "at_model_call i = False"

fun at_tool_call :: "interception \<Rightarrow> bool" where
  "at_tool_call (At_tool_call request_id agent tool args) = True"
| "at_tool_call i = False"

fun at_model_response :: "interception \<Rightarrow> bool" where
  "at_model_response (At_model_response request_id agent response thoughts media) = True"
| "at_model_response i = False"

fun evaluated_at :: "(interception \<Rightarrow> bool) \<Rightarrow> event \<Rightarrow> bool" where
  "evaluated_at P (Evaluated i d) = P i"
| "evaluated_at P e = False"

definition stream_preflight_checks ::
  "env \<Rightarrow> SecurityManager \<Rightarrow> string \<Rightarrow> Agent \<Rightarrow> string \<Rightarrow> body \<Rightarrow> event list" where
  "stream_preflight_checks env sm request_id agent model b =
     model_call_check env sm request_id agent model
       (join newline (stream_prompt_parts (get_contents b) []))
     # map (tool_precheck env sm request_id agent) (declared_functions (get_tools b))"


text \<open>
  The tools a policy sees at an evaluation: the tool of the call, where there is one, and
  the tools of the agent.
\<close>

fun tools_at :: "interception \<Rightarrow> Tool list" where
  "tools_at (At_tool_response request_id agent tool response) = tool # agent_tools agent"
| "tools_at (At_model_call request_id agent model system_instructions prompt media) =
     agent_tools agent"
| "tools_at (At_tool_call request_id agent tool args) = tool # agent_tools agent"
| "tools_at (At_model_response request_id agent response thoughts media) = agent_tools agent"

fun tools_of :: "event \<Rightarrow> Tool list" where
  "tools_of (Evaluated i d) = tools_at i"
| "tools_of (Forwarded m b k) = []"
| "tools_of (Stream_opened m b k) = []"

definition described :: "Tool \<Rightarrow> bool" where
  "described tool = (tool_description tool \<noteq> [])"

section \<open>Example requests\<close>

text \<open>
  Concrete requests, responses and environments for the closed instances below.
\<close>

definition text_part :: "string \<Rightarrow> Part" where
  "text_part t =
     \<lparr>part_text = Some t, part_thought = None, part_function_call = None,
      part_function_response = None\<rparr>"

definition thought_part :: "string \<Rightarrow> Part" where
  "thought_part t =
     \<lparr>part_text = Some t, part_thought = Some True, part_function_call = None,
      part_function_response = None\<rparr>"

definition response_part :: "string \<Rightarrow> pydict \<Rightarrow> Part" where
  "response_part n r =
     \<lparr>part_text = None, part_thought = None, part_function_call = None,
      part_function_response = Some \<lparr>fr_name = n, fr_response = Some r\<rparr>\<rparr>"

definition call_part :: "string \<Rightarrow> pydict \<Rightarrow> Part" where
  "call_part n a =
     \<lparr>part_text = None, part_thought = None,
      part_function_call = Some \<lparr>fc_name = n, fc_args = Some a\<rparr>,
      part_function_response = None\<rparr>"

definition entry :: "string \<Rightarrow> Part list \<Rightarrow> content_entry" where
  "entry r ps = Accepted \<lparr>content_role = Some r, content_parts = Some ps\<rparr>"

definition example_request :: "tool_def list option \<Rightarrow> content_entry list \<Rightarrow> Request" where
  "example_request tools contents =
     \<lparr>x_goog_api_key = ''key-1'',
      request_json = Inr \<lparr>body_tools = tools, body_contents = Some contents\<rparr>\<rparr>"

definition example_response :: "Part list \<Rightarrow> GenerateContentResponse" where
  "example_response ps =
     \<lparr>candidates =
        Some [\<lparr>candidate_content = Some \<lparr>content_role = Some ''model'', content_parts = Some ps\<rparr>\<rparr>]\<rparr>"

definition example_env :: "GenerateContentResponse \<Rightarrow> env" where
  "example_env response =
     \<lparr>safe_text = ''safe'',
      get_user_id_from_auth = (\<lambda>auth. ''0123456789abcdef''),
      uuid4_hex = ''req-1'',
      provider_generate_content = (\<lambda>model b api_key. Inr (Some response)),
      provider_generate_content_stream = (\<lambda>model b api_key. [''chunk 1'', ''chunk 2''])\<rparr>"

definition example_agent :: Agent where
  "example_agent =
     \<lparr>agent_name = ''proxy-user-0123456789abcdef'',
      agent_instructions = ''OpenAI API proxy user'', agent_tools = []\<rparr>"

definition example_startup ::
  "string option \<Rightarrow> bool \<Rightarrow> unit + SecurityManager \<Rightarrow> startup" where
  "example_startup config_dir found loaded =
     \<lparr>PROXY_CONFIG_DIR = config_dir, path_exists = (\<lambda>p. found),
      load_policies_from_directory = (\<lambda>p. loaded)\<rparr>"

definition ok_env :: env where
  "ok_env = example_env (example_response [text_part ''ok''])"

definition blocked_prompt_request :: Request where
  "blocked_prompt_request =
     example_request None [entry ''user'' [text_part ''what is the weather? capsem_block'']]"

definition blocked_prompt_check :: event where
  "blocked_prompt_check =
     Evaluated
       (At_model_call ''req-1'' example_agent ''gemini'' []
          ''what is the weather? capsem_block'' [])
       \<lparr>verdict = BLOCK, reason = POLICY_VIOLATION,
        details = ''Detected 'capsem_block' in prompt''\<rparr>"

definition weather_tool_request :: "string \<Rightarrow> Request" where
  "weather_tool_request n =
     example_request
       (Some [\<lparr>td_type = None, td_function = None,
               td_functionDeclarations =
                 Some [\<lparr>fd_name = Some n, fd_description = Some '''',
                        fd_parameters = None\<rparr>]\<rparr>])
       [entry ''user'' [text_part ''what is the weather in paris?'']]"

definition blocked_tool_check :: event where
  "blocked_tool_check =
     Evaluated
       (At_tool_call ''req-1'' example_agent
          \<lparr>tool_name = ''weather_capsem_block_function'',
           tool_description = ''No description provided'',
           tool_parameters = default_parameters\<rparr> [])
       \<lparr>verdict = BLOCK, reason = POLICY_VIOLATION,
        details = ''Detected 'capsem_block' in tool name''\<rparr>"

definition hello_request :: Request where
  "hello_request = example_request None [entry ''user'' [text_part ''hello'']]"

definition no_candidates_env :: env where
  "no_candidates_env = example_env \<lparr>candidates = Some []\<rparr>"

definition tool_call_response :: GenerateContentResponse where
  "tool_call_response =
     example_response
       [text_part ''calling'',
        call_part ''weather_capsem_block_function'' [(''location'', PyStr ''Paris'')]]"

definition weather_request :: Request where
  "weather_request =
     example_request None [entry ''user'' [text_part ''what is the weather in paris?'']]"

definition openai_tool_request :: Request where
  "openai_tool_request =
     example_request
       (Some [\<lparr>td_type = Some ''function'',
               td_function = Some \<lparr>fd_name = Some ''get_weather'', fd_description = None,
                                   fd_parameters = None\<rparr>,
               td_functionDeclarations =
                 Some [\<lparr>fd_name = Some ''get_weather'', fd_description = Some '''',
                        fd_parameters = None\<rparr>]\<rparr>])
       [entry ''user'' [text_part ''what is the weather in paris?'']]"

definition hello_body :: body where
  "hello_body = \<lparr>body_tools = None, body_contents = Some [entry ''user'' [text_part ''hello'']]\<rparr>"

definition allowed :: Decision where
  "allowed = \<lparr>verdict = ALLOW, reason = SAFE, details = ''safe''\<rparr>"

definition weather_tool_body :: "string \<Rightarrow> body" where
  "weather_tool_body n =
     \<lparr>body_tools =
        Some [\<lparr>td_type = None, td_function = None,
               td_functionDeclarations =
                 Some [\<lparr>fd_name = Some n, fd_description = Some [],
                        fd_parameters = None\<rparr>]\<rparr>],
      body_contents = Some [entry ''user'' [text_part ''what is the weather in paris?'']]\<rparr>"

definition two_responses_request :: Request where
  "two_responses_request =
     example_request None
       [entry ''user''
          [response_part ''get_weather'' [(''location'', PyStr ''capsem_block'')],
           response_part ''get_time'' [(''time'', PyStr ''noon'')]]]"

definition thought_request :: Request where
  "thought_request =
     example_request None
       [entry ''model'' [thought_part ''capsem_block''], entry ''user'' [text_part ''hello'']]"

section \<open>Basic facts\<close>

lemma bind_ok [simp]: "bind_run (ok x) k = k x"
  by (simp add: bind_run_def ok_def)

lemma bind_raise [simp]: "bind_run (raise e) k = raise e"
  by (simp add: bind_run_def raise_def)

lemma run_ok [simp]: "fst (ok x) = []" "snd (ok x) = Inr x"
  by (simp_all add: ok_def)

lemma run_raise [simp]: "fst (raise e) = []" "snd (raise e) = Inl e"
  by (simp_all add: raise_def)

lemma bind_assoc: "bind_run (bind_run m k) h = bind_run m (\<lambda>x. bind_run (k x) h)"
  by (cases m) (auto simp: bind_run_def split: sum.splits)

lemma run_checks_Nil [simp]: "run_checks pfx [] = ok ()"
  by (simp add: run_checks_def ok_def)

lemma first_blocking_None: "first_blocking es = None \<longleftrightarrow> \<not> list_ex blocking es"
  by (induction es rule: first_blocking.induct) auto

lemma checked_all: "\<not> list_ex blocking es \<Longrightarrow> checked es = es"
  by (induction es) auto

lemma checked_append:
  "checked (xs @ ys) = (if list_ex blocking xs then checked xs else xs @ checked ys)"
  by (induction xs) auto

lemma first_blocking_append:
  "first_blocking (xs @ ys) =
     (case first_blocking xs of None \<Rightarrow> first_blocking ys | Some d \<Rightarrow> Some d)"
  by (induction xs rule: first_blocking.induct) auto

lemma run_checks_append:
  "bind_run (run_checks pfx xs) (\<lambda>u. run_checks pfx ys) = run_checks pfx (xs @ ys)"
proof (cases "first_blocking xs")
  case None
  then have "\<not> list_ex blocking xs" by (simp add: first_blocking_None)
  with None show ?thesis
    by (simp add: run_checks_def bind_run_def checked_append first_blocking_append checked_all)
next
  case (Some d)
  then have "list_ex blocking xs" using first_blocking_None [of xs] by simp
  with Some show ?thesis
    by (simp add: run_checks_def bind_run_def checked_append first_blocking_append)
qed

lemma run_checks_then:
  "bind_run (run_checks pfx xs) (\<lambda>u. bind_run (run_checks pfx ys) k)
     = bind_run (run_checks pfx (xs @ ys)) k"
  by (simp add: run_checks_append [symmetric] bind_assoc)

lemma check_function_response_checks:
  "check_function_response env sm request_id agent part =
     run_checks request_blocked
       (case part_function_response part of
          None \<Rightarrow> []
        | Some fr \<Rightarrow> [response_check env sm request_id agent fr])"
  by (auto simp: check_function_response_def run_checks_def bind_run_def gemini_decide_def
      security_manager_on_tool_response_def response_check_def request_blocked_def ok_def
      raise_def split: option.splits)

lemma scan_contents_checks:
  "scan_contents env sm request_id agent cs acc =
     bind_run (run_checks request_blocked (response_checks env sm request_id agent cs))
       (\<lambda>u. ok (split_contents cs acc))"
proof (induction cs arbitrary: acc)
  case Nil
  then show ?case by simp
next
  case (Cons entry cs)
  show ?case
  proof (cases entry)
    case (Rejected c)
    then show ?thesis using Cons by simp
  next
    case (Accepted c)
    then show ?thesis
      using Cons
      by (auto simp: check_function_response_checks run_checks_then split: option.splits)
  qed
qed


lemma check_function_call_checks:
  "check_function_call env sm request_id agent part =
     run_checks request_blocked
       (case part_function_call part of
          None \<Rightarrow> []
        | Some fc \<Rightarrow> [call_check env sm request_id agent fc])"
  by (auto simp: check_function_call_def run_checks_def bind_run_def gemini_decide_def
      security_manager_on_tool_call_def call_check_def request_blocked_def ok_def
      raise_def split: option.splits)

lemma split_parts_append:
  "split_parts (ps @ qs) acc = split_parts qs (split_parts ps acc)"
  by (induction ps arbitrary: acc) auto

lemma check_parts_checks:
  "check_parts env sm request_id agent ps acc =
     bind_run (run_checks request_blocked (part_checks env sm request_id agent ps))
       (\<lambda>u. ok (split_parts ps acc))"
  by (induction ps arbitrary: acc)
     (auto simp: check_function_call_checks run_checks_then split: option.splits)

lemma part_checks_append:
  "part_checks env sm request_id agent (ps @ qs) =
     part_checks env sm request_id agent ps @ part_checks env sm request_id agent qs"
  by (induction ps) auto

lemma check_candidates_checks:
  "check_candidates env sm request_id agent cs acc =
     bind_run
       (run_checks request_blocked (part_checks env sm request_id agent (candidate_parts cs)))
       (\<lambda>u. ok (split_parts (candidate_parts cs) acc))"
proof (induction cs arbitrary: acc)
  case Nil
  then show ?case by simp
next
  case (Cons candidate cs)
  then show ?case
    by (auto simp: check_parts_checks bind_assoc run_checks_then part_checks_append
        split_parts_append split: option.splits)
qed

lemma model_response_checks:
  "bind_run (security_manager_on_model_response env sm request_id agent
       (join newline (fst (split_parts ps ([], []))))
       (join newline (snd (split_parts ps ([], [])))) [])
     (\<lambda>d. bind_run (gemini_decide ''on_model_response'' d request_id) k)
   = bind_run (run_checks request_blocked [model_response_check env sm request_id agent ps]) k"
  by (auto simp: security_manager_on_model_response_def model_response_check_def
      run_checks_def bind_run_def gemini_decide_def request_blocked_def ok_def raise_def)

lemma check_response_checks:
  "check_response env sm request_id agent response =
     (case candidates response of
        None \<Rightarrow> ok (Returned response)
      | Some cs \<Rightarrow>
          if cs = [] then ok (Returned response)
          else bind_run
                 (run_checks request_blocked
                    (part_checks env sm request_id agent (candidate_parts cs)
                     @ [model_response_check env sm request_id agent (candidate_parts cs)]))
                 (\<lambda>u. ok (Returned response)))"
  by (auto simp: check_response_def check_candidates_checks bind_assoc model_response_checks
      run_checks_then split: option.splits)

lemma model_call_checks:
  "bind_run (security_manager_on_model_call env sm request_id agent model [] prompt [])
     (\<lambda>d. bind_run (gemini_decide ''on_model_call'' d request_id) k)
   = bind_run (run_checks request_blocked [model_call_check env sm request_id agent model prompt]) k"
  by (auto simp: security_manager_on_model_call_def model_call_check_def
      run_checks_def bind_run_def gemini_decide_def request_blocked_def ok_def raise_def)

lemma check_func_decl_checks:
  "check_func_decl env sm request_id agent fd =
     run_checks tool_blocked [tool_precheck env sm request_id agent fd]"
  by (auto simp: check_func_decl_def security_manager_on_tool_call_def tool_precheck_def
      run_checks_def bind_run_def tool_blocked_def ok_def raise_def)

lemma check_func_decls_checks:
  "check_func_decls env sm request_id agent fs =
     run_checks tool_blocked (map (tool_precheck env sm request_id agent) fs)"
proof (induction fs)
  case Nil
  then show ?case by simp
next
  case (Cons fd fs)
  then show ?case
    using run_checks_append [of tool_blocked "[tool_precheck env sm request_id agent fd]"
        "map (tool_precheck env sm request_id agent) fs"]
    by (simp add: check_func_decl_checks)
qed

lemma check_tool_defs_checks:
  "check_tool_defs env sm request_id agent tds =
     run_checks tool_blocked
       (map (tool_precheck env sm request_id agent) (declared_functions tds))"
proof (induction tds)
  case Nil
  then show ?case by simp
next
  case (Cons td tds)
  then show ?case
    by (auto simp: check_func_decls_checks run_checks_append split: option.splits)
qed


lemma checked_subset: "set (checked es) \<subseteq> set es"
  by (induction es) auto

lemma checked_blocking:
  "Evaluated i d \<in> set (checked es) \<Longrightarrow> verdict d = BLOCK \<Longrightarrow> first_blocking es = Some d"
proof (induction es)
  case Nil
  then show ?case by simp
next
  case (Cons e es)
  then show ?case by (cases e) (auto split: if_splits)
qed

lemma bind_run_checks_blocked:
  "first_blocking es = Some d \<Longrightarrow>
   bind_run (run_checks pfx es) k = (checked es, Inl (Raised (HTTPException 403 (pfx @ details d))))"
  by (simp add: run_checks_def bind_run_def)

lemma bind_run_checks_pass:
  "first_blocking es = None \<Longrightarrow>
   bind_run (run_checks pfx es) k = (es @ fst (k ()), snd (k ()))"
proof -
  assume none: "first_blocking es = None"
  then have "checked es = es" by (simp add: first_blocking_None checked_all)
  with none show ?thesis by (simp add: run_checks_def bind_run_def)
qed

lemma check_response_run:
  "check_response env sm request_id agent response =
     bind_run (run_checks request_blocked (postflight_checks env sm request_id agent response))
       (\<lambda>u. ok (Returned response))"
  by (simp add: check_response_checks postflight_checks_def split: option.splits)

lemma check_and_forward_run:
  "check_and_forward env sm model api_key b request_id agent =
     bind_run (run_checks request_blocked (preflight_checks env sm request_id agent model b))
       (\<lambda>u.
     bind_run (gemini_provider_generate_content env model b api_key)
       (\<lambda>raw_response.
     bind_run
       (case raw_response of
          None \<Rightarrow> raise (Raised (HTTPException 502 ''Invalid response from provider''))
        | Some response \<Rightarrow> ok response)
       (\<lambda>response.
     bind_run (run_checks request_blocked (postflight_checks env sm request_id agent response))
       (\<lambda>u. ok (Returned response)))))"
  by (simp add: check_and_forward_def scan_contents_checks bind_assoc model_call_checks
      run_checks_then preflight_checks_def assembled_prompt_def check_response_run)

lemma stream_check_and_forward_run:
  "stream_check_and_forward env sm model api_key b request_id agent =
     bind_run
       (run_checks request_blocked
          [model_call_check env sm request_id agent model
             (join newline (stream_prompt_parts (get_contents b) []))])
       (\<lambda>u.
     bind_run
       (run_checks tool_blocked
          (map (tool_precheck env sm request_id agent) (declared_functions (get_tools b))))
       (\<lambda>u.
     bind_run (gemini_provider_generate_content_stream env model b api_key)
       (\<lambda>stream. ok (StreamingResponse stream))))"
  by (auto simp: stream_check_and_forward_def check_tool_defs_checks
      security_manager_on_model_call_def model_call_check_def
      run_checks_def bind_run_def request_blocked_def ok_def raise_def)


lemma generate_content_run:
  "generate_content env sm model request =
     (if x_goog_api_key request = []
      then ([], Inl (HTTPException 400 ''Missing x-goog-api-key header''))
      else
        case request_json request of
          Inl e \<Rightarrow> ([], Inl (HTTPException 400 (''Invalid JSON in request body: '' @ e)))
        | Inr b \<Rightarrow>
            (case first_blocking
                    (preflight_checks env sm (uuid4_hex env)
                       (request_agent env (x_goog_api_key request) b) model b) of
               Some d \<Rightarrow>
                 (checked (preflight_checks env sm (uuid4_hex env)
                      (request_agent env (x_goog_api_key request) b) model b),
                  Inl (HTTPException 403 (request_blocked @ details d)))
             | None \<Rightarrow>
                 (preflight_checks env sm (uuid4_hex env)
                      (request_agent env (x_goog_api_key request) b) model b
                  @ Forwarded model b (x_goog_api_key request)
                  # (case provider_generate_content env model b (x_goog_api_key request) of
                       Inr (Some response) \<Rightarrow>
                         checked (postflight_checks env sm (uuid4_hex env)
                           (request_agent env (x_goog_api_key request) b) response)
                     | other \<Rightarrow> []),
                  case provider_generate_content env model b (x_goog_api_key request) of
                    Inl e \<Rightarrow> Inl (generate_content_except e)
                  | Inr None \<Rightarrow> Inl (HTTPException 502 ''Invalid response from provider'')
                  | Inr (Some response) \<Rightarrow>
                      (case first_blocking
                              (postflight_checks env sm (uuid4_hex env)
                                 (request_agent env (x_goog_api_key request) b) response) of
                         Some d \<Rightarrow> Inl (HTTPException 403 (request_blocked @ details d))
                       | None \<Rightarrow> Inr (Returned response)))))"
proof (cases "x_goog_api_key request = []")
  case True
  then show ?thesis
    by (simp add: generate_content_def generate_content_try_def extract_gemini_api_key_def)
next
  case key: False
  show ?thesis
  proof (cases "request_json request")
    case (Inl e)
    with key show ?thesis
      by (simp add: generate_content_def generate_content_try_def extract_gemini_api_key_def)
  next
    case (Inr b)
    let ?agent = "request_agent env (x_goog_api_key request) b"
    let ?pre = "preflight_checks env sm (uuid4_hex env) ?agent model b"
    have unfolded: "generate_content_try env sm model request =
        check_and_forward env sm model (x_goog_api_key request) b (uuid4_hex env) ?agent"
      using key Inr
      by (simp add: generate_content_try_def extract_gemini_api_key_def request_agent_def)
    show ?thesis
    proof (cases "first_blocking ?pre")
      case (Some d)
      with key Inr show ?thesis
        by (simp add: generate_content_def unfolded check_and_forward_run bind_run_checks_blocked)
    next
      case None
      note pass = bind_run_checks_pass [OF None]
      show ?thesis
      proof (cases "provider_generate_content env model b (x_goog_api_key request)")
        case (Inl e)
        with key \<open>request_json request = Inr b\<close> None show ?thesis
          unfolding generate_content_def unfolded check_and_forward_run pass
          by (simp add: gemini_provider_generate_content_def bind_run_def)
      next
        case (Inr raw)
        show ?thesis
        proof (cases raw)
          case no: None
          with key \<open>request_json request = Inr b\<close> None Inr show ?thesis
            unfolding generate_content_def unfolded check_and_forward_run pass
            by (simp add: gemini_provider_generate_content_def bind_run_def)
        next
          case (Some response)
          let ?post = "postflight_checks env sm (uuid4_hex env) ?agent response"
          show ?thesis
          proof (cases "first_blocking ?post")
            case post: None
            then have "checked ?post = ?post" by (simp add: first_blocking_None checked_all)
            with key \<open>request_json request = Inr b\<close> None Inr Some post show ?thesis
              unfolding generate_content_def unfolded check_and_forward_run pass
              by (simp add: gemini_provider_generate_content_def bind_run_def run_checks_def)
          next
            case post: (Some d)
            with key \<open>request_json request = Inr b\<close> None Inr Some show ?thesis
              unfolding generate_content_def unfolded check_and_forward_run pass
              by (simp add: gemini_provider_generate_content_def bind_run_def run_checks_def)
          qed
        qed
      qed
    qed
  qed
qed


lemma stream_generate_content_run:
  "stream_generate_content env sm model request =
     (if x_goog_api_key request = []
      then ([], Inl (HTTPException 400 ''Missing x-goog-api-key header''))
      else
        case request_json request of
          Inl e \<Rightarrow> ([], Inl (HTTPException 400 e))
        | Inr b \<Rightarrow>
            (case first_blocking
                    (stream_preflight_checks env sm (uuid4_hex env)
                       (request_agent env (x_goog_api_key request) b) model b) of
               Some d \<Rightarrow>
                 (checked (stream_preflight_checks env sm (uuid4_hex env)
                      (request_agent env (x_goog_api_key request) b) model b),
                  Inl (HTTPException 403
                    ((if blocking (hd (stream_preflight_checks env sm (uuid4_hex env)
                            (request_agent env (x_goog_api_key request) b) model b))
                      then request_blocked else tool_blocked) @ details d)))
             | None \<Rightarrow>
                 (stream_preflight_checks env sm (uuid4_hex env)
                      (request_agent env (x_goog_api_key request) b) model b
                  @ [Stream_opened model b (x_goog_api_key request)],
                  Inr (StreamingResponse
                         (provider_generate_content_stream env model b
                            (x_goog_api_key request))))))"
proof (cases "x_goog_api_key request = []")
  case True
  then show ?thesis
    by (simp add: stream_generate_content_def stream_generate_content_try_def
        extract_gemini_api_key_def)
next
  case key: False
  show ?thesis
  proof (cases "request_json request")
    case (Inl e)
    with key show ?thesis
      by (simp add: stream_generate_content_def stream_generate_content_try_def
          extract_gemini_api_key_def)
  next
    case (Inr b)
    let ?agent = "request_agent env (x_goog_api_key request) b"
    let ?mc = "model_call_check env sm (uuid4_hex env) ?agent model
       (join newline (stream_prompt_parts (get_contents b) []))"
    let ?tools = "map (tool_precheck env sm (uuid4_hex env) ?agent)
       (declared_functions (get_tools b))"
    have unfolded: "stream_generate_content_try env sm model request =
        stream_check_and_forward env sm model (x_goog_api_key request) b (uuid4_hex env) ?agent"
      using key Inr
      by (simp add: stream_generate_content_try_def extract_gemini_api_key_def
          request_agent_def)
    obtain i d where mc: "?mc = Evaluated i d"
      by (simp add: model_call_check_def)
    show ?thesis
    proof (cases "verdict d = BLOCK")
      case True
      with key Inr mc show ?thesis
        unfolding stream_generate_content_def unfolded stream_check_and_forward_run
        by (simp add: stream_preflight_checks_def run_checks_def bind_run_def)
    next
      case allow: False
      show ?thesis
      proof (cases "first_blocking ?tools")
        case None
        then have "checked ?tools = ?tools" by (simp add: first_blocking_None checked_all)
        with key Inr mc allow None show ?thesis
          unfolding stream_generate_content_def unfolded stream_check_and_forward_run
          by (simp add: stream_preflight_checks_def run_checks_def bind_run_def
              gemini_provider_generate_content_stream_def)
      next
        case (Some d')
        with key Inr mc allow show ?thesis
          unfolding stream_generate_content_def unfolded stream_check_and_forward_run
          by (simp add: stream_preflight_checks_def run_checks_def bind_run_def)
      qed
    qed
  qed
qed

lemma startswith_prefix: "startswith s sub \<longleftrightarrow> prefix sub s"
  by (induction s sub rule: startswith.induct) auto

lemma py_in_sublist: "py_in sub s \<longleftrightarrow> sublist sub s"
  by (induction s) (auto simp: startswith_prefix sublist_Cons_right)

lemma lower_trigger: "lower ''capsem_block'' = ''capsem_block''"
  by (simp add: lower_def lower_char_def)

lemma py_in_lower: "py_in sub s \<Longrightarrow> py_in (lower sub) (lower s)"
  by (simp add: py_in_sublist lower_def map_mono_sublist)

lemma not_blocking_before:
  "first_blocking es = None \<Longrightarrow> Evaluated i d \<in> set es \<Longrightarrow> verdict d \<noteq> BLOCK"
  by (induction es rule: first_blocking.induct) (auto split: if_splits)

lemma response_checks_form:
  "e \<in> set (response_checks env sm request_id agent cs) \<Longrightarrow>
     \<exists>fr. e = response_check env sm request_id agent fr"
proof (induction cs)
  case Nil
  then show ?case by simp
next
  case (Cons entry cs)
  show ?case
  proof (cases entry)
    case (Rejected c)
    with Cons show ?thesis by simp
  next
    case (Accepted c)
    show ?thesis
    proof (cases "e \<in> set (response_checks env sm request_id agent cs)")
      case True
      with Cons show ?thesis by simp
    next
      case False
      with Cons.prems Accepted show ?thesis
        by (cases "content_parts c"; cases "part_function_response (last (the (content_parts c)))")
           (auto split: if_splits)
    qed
  qed
qed

lemma part_checks_form:
  "e \<in> set (part_checks env sm request_id agent ps) \<Longrightarrow>
     \<exists>part fc. part \<in> set ps \<and> part_function_call part = Some fc
       \<and> e = call_check env sm request_id agent fc"
proof (induction ps)
  case Nil
  then show ?case by simp
next
  case (Cons part ps)
  show ?case
  proof (cases "e \<in> set (part_checks env sm request_id agent ps)")
    case True
    with Cons show ?thesis by auto
  next
    case False
    with Cons.prems show ?thesis
      by (cases "part_function_call part") auto
  qed
qed

lemma part_checks_mem:
  "part \<in> set ps \<Longrightarrow> part_function_call part = Some fc \<Longrightarrow>
     call_check env sm request_id agent fc \<in> set (part_checks env sm request_id agent ps)"
  by (induction ps) auto

lemma preflight_checks_kind:
  assumes "e \<in> set (preflight_checks env sm request_id agent model b)"
  shows "\<not> forwarded e" and "\<not> evaluated_at at_tool_call e"
    and "\<not> evaluated_at at_model_response e"
  using assms response_checks_form [of e env sm request_id agent "get_contents b"]
  by (auto simp: preflight_checks_def model_call_check_def response_check_def)

lemma part_checks_kind:
  "e \<in> set (part_checks env sm request_id agent ps) \<Longrightarrow> evaluated_at at_tool_call e"
  using part_checks_form [of e env sm request_id agent ps]
  by (auto simp: call_check_def)

lemma postflight_checks_form:
  "e \<in> set (postflight_checks env sm request_id agent response) \<Longrightarrow>
     (\<exists>cs. candidates response = Some cs
        \<and> (e \<in> set (part_checks env sm request_id agent (candidate_parts cs))
           \<or> e = model_response_check env sm request_id agent (candidate_parts cs)))"
  by (cases "candidates response") (auto simp: postflight_checks_def split: if_splits)

lemma postflight_checks_kind:
  assumes "e \<in> set (postflight_checks env sm request_id agent response)"
  shows "\<not> forwarded e" and "\<not> evaluated_at at_model_call e"
proof -
  from postflight_checks_form [OF assms] obtain cs where
    "e \<in> set (part_checks env sm request_id agent (candidate_parts cs))
       \<or> e = model_response_check env sm request_id agent (candidate_parts cs)"
    by blast
  then have "evaluated_at at_tool_call e \<or> evaluated_at at_model_response e"
    using part_checks_kind [of e env sm request_id agent "candidate_parts cs"]
    by (auto simp: model_response_check_def)
  then show "\<not> forwarded e" and "\<not> evaluated_at at_model_call e"
    by (cases e; cases "case e of Evaluated i d \<Rightarrow> i"; auto)+
qed

lemma generate_content_blocked:
  assumes "Evaluated i d \<in> set (fst (generate_content env sm model request))"
    and "verdict d = BLOCK"
  shows "snd (generate_content env sm model request)
           = Inl (HTTPException 403 (request_blocked @ details d))"
    and "at_model_call i \<Longrightarrow> \<not> list_ex forwarded (fst (generate_content env sm model request))"
proof -
  from assms(1) have key: "x_goog_api_key request \<noteq> []"
    by (auto simp: generate_content_run)
  from assms(1) key obtain b where b: "request_json request = Inr b"
    by (cases "request_json request") (auto simp: generate_content_run)
  let ?agent = "request_agent env (x_goog_api_key request) b"
  let ?pre = "preflight_checks env sm (uuid4_hex env) ?agent model b"
  have goal: "snd (generate_content env sm model request)
           = Inl (HTTPException 403 (request_blocked @ details d))
      \<and> (at_model_call i \<longrightarrow> \<not> list_ex forwarded (fst (generate_content env sm model request)))"
  proof (cases "first_blocking ?pre")
    case (Some d0)
    with key b have run: "generate_content env sm model request
        = (checked ?pre, Inl (HTTPException 403 (request_blocked @ details d0)))"
      by (simp add: generate_content_run)
    with assms have "first_blocking ?pre = Some d" by (simp add: checked_blocking)
    with Some have "d0 = d" by simp
    moreover have "\<not> list_ex forwarded (checked ?pre)"
      using checked_subset [of ?pre]
        preflight_checks_kind(1) [of _ env sm "uuid4_hex env" ?agent model b]
      by (auto simp: list_ex_iff)
    ultimately show ?thesis using run by simp
  next
    case None
    show ?thesis
    proof (cases "provider_generate_content env model b (x_goog_api_key request)")
      case (Inl e)
      with key b None assms not_blocking_before [OF None] show ?thesis
        by (auto simp: generate_content_run)
    next
      case (Inr raw)
      show ?thesis
      proof (cases raw)
        case no: None
        with key b None Inr assms not_blocking_before [OF None] show ?thesis
          by (auto simp: generate_content_run)
      next
        case (Some response)
        let ?post = "postflight_checks env sm (uuid4_hex env) ?agent response"
        from key b None Inr Some assms not_blocking_before [OF None]
        have mem: "Evaluated i d \<in> set (checked ?post)"
          by (auto simp: generate_content_run)
        from checked_blocking [OF mem assms(2)] have fb: "first_blocking ?post = Some d" .
        from mem checked_subset [of ?post] have "Evaluated i d \<in> set ?post" by auto
        from postflight_checks_kind(2) [OF this] have "\<not> at_model_call i" by simp
        with key b None Inr Some fb show ?thesis
          by (simp add: generate_content_run)
      qed
    qed
  qed
  from goal show "snd (generate_content env sm model request)
           = Inl (HTTPException 403 (request_blocked @ details d))" by simp
  from goal show "at_model_call i \<Longrightarrow> \<not> list_ex forwarded (fst (generate_content env sm model request))"
    by simp
qed

lemma stream_generate_content_blocked:
  assumes "Evaluated i d \<in> set (fst (stream_generate_content env sm model request))"
    and "verdict d = BLOCK"
  shows "snd (stream_generate_content env sm model request)
           = Inl (HTTPException 403
                    ((if at_tool_call i then tool_blocked else request_blocked) @ details d))"
    and "\<not> list_ex stream_opened (fst (stream_generate_content env sm model request))"
proof -
  from assms(1) have key: "x_goog_api_key request \<noteq> []"
    by (auto simp: stream_generate_content_run)
  from assms(1) key obtain b where b: "request_json request = Inr b"
    by (cases "request_json request") (auto simp: stream_generate_content_run)
  let ?agent = "request_agent env (x_goog_api_key request) b"
  let ?mc = "model_call_check env sm (uuid4_hex env) ?agent model
       (join newline (stream_prompt_parts (get_contents b) []))"
  let ?tools = "map (tool_precheck env sm (uuid4_hex env) ?agent)
       (declared_functions (get_tools b))"
  let ?pre = "stream_preflight_checks env sm (uuid4_hex env) ?agent model b"
  have pre: "?pre = ?mc # ?tools" by (simp add: stream_preflight_checks_def)
  have kinds: "\<not> stream_opened e" if "e \<in> set ?pre" for e
    using that by (auto simp: pre model_call_check_def tool_precheck_def)
  have goal: "snd (stream_generate_content env sm model request)
           = Inl (HTTPException 403
                    ((if at_tool_call i then tool_blocked else request_blocked) @ details d))
      \<and> \<not> list_ex stream_opened (fst (stream_generate_content env sm model request))"
  proof (cases "first_blocking ?pre")
    case None
    with key b assms not_blocking_before [OF None] show ?thesis
      by (auto simp: stream_generate_content_run)
  next
    case (Some d0)
    with key b have run: "stream_generate_content env sm model request
        = (checked ?pre, Inl (HTTPException 403
             ((if blocking (hd ?pre) then request_blocked else tool_blocked) @ details d0)))"
      by (simp add: stream_generate_content_run)
    with assms have "first_blocking ?pre = Some d" by (simp add: checked_blocking)
    with Some have d0: "d0 = d" by simp
    have no_stream: "\<not> list_ex stream_opened (checked ?pre)"
      using checked_subset [of ?pre] kinds by (auto simp: list_ex_iff)
    have "blocking (hd ?pre) \<longleftrightarrow> \<not> at_tool_call i"
    proof (cases "blocking ?mc")
      case True
      then have "checked ?pre = [?mc]" by (simp add: pre)
      with run assms(1) have "Evaluated i d = ?mc" by simp
      then have "\<not> at_tool_call i" by (auto simp: model_call_check_def)
      with True show ?thesis by (simp add: pre)
    next
      case False
      then have "checked ?pre = ?mc # checked ?tools" by (simp add: pre)
      with run assms False have "Evaluated i d \<in> set (checked ?tools)"
        by (auto simp: model_call_check_def)
      with checked_subset [of ?tools] have "Evaluated i d \<in> set ?tools" by auto
      then have "at_tool_call i" by (auto simp: tool_precheck_def)
      with False show ?thesis by (simp add: pre)
    qed
    with run d0 no_stream show ?thesis by simp
  qed
  from goal show "snd (stream_generate_content env sm model request)
           = Inl (HTTPException 403
                    ((if at_tool_call i then tool_blocked else request_blocked) @ details d))"
    by simp
  from goal show "\<not> list_ex stream_opened (fst (stream_generate_content env sm model request))"
    by simp
qed

section \<open>The claims\<close>

text \<open>
  C7.  If \<open>PROXY_CONFIG_DIR\<close> is unset, or names a path that does not exist, or loading
  from it raises, the security manager of the proxy holds exactly one policy, the default
  \<open>DebugPolicy\<close>.  That policy blocks a prompt, a model response, a tool response, or a
  tool call (by its name or its arguments) exactly when the text holds the trigger token,
  and allows otherwise.
\<close>

theorem default_policy_without_usable_config:
  assumes "PROXY_CONFIG_DIR st = None
     \<or> (\<exists>d. PROXY_CONFIG_DIR st = Some d
          \<and> (\<not> path_exists st d \<or> (\<exists>e. load_policies_from_directory st d = Inl e)))"
  shows "policies (capsem_integration_security_manager safe_details st) = [DebugPolicy safe_details]
     \<and> verdict (on_model_call (DebugPolicy safe_details) invocation_id agent model_name
            system_instructions prompt media)
         = (if py_in ''capsem_block'' (lower prompt) then BLOCK else ALLOW)
     \<and> verdict (on_model_response (DebugPolicy safe_details) invocation_id agent response
            thoughts media)
         = (if py_in ''capsem_block'' (lower response) then BLOCK else ALLOW)
     \<and> verdict (on_tool_response (DebugPolicy safe_details) invocation_id agent tool payload)
         = (if py_in ''capsem_block'' (lower (py_str (PyDict payload))) then BLOCK else ALLOW)
     \<and> verdict (on_tool_call (DebugPolicy safe_details) invocation_id agent tool args)
         = (if py_in DEBUG_TRIGGER (lower (tool_name tool))
               \<or> py_in DEBUG_TRIGGER (lower (args_str args))
            then BLOCK else ALLOW)"
proof -
  have "policies (capsem_integration_security_manager safe_details st)
      = [DebugPolicy safe_details]"
    using assms
    by (auto simp: capsem_integration_security_manager_def default_security_manager_def
        add_policy_def SecurityManager_new_def)
  then show ?thesis
    by (simp add: DebugPolicy_def DebugPolicy_on_model_call_def
        DebugPolicy_on_model_response_def DebugPolicy_on_tool_response_def
        DebugPolicy_on_tool_call_def DEFAULT_SAFE_DECISION_def)
qed

theorem default_policy_witness:
  "policies (capsem_integration_security_manager ''safe''
       (example_startup None True (Inr SecurityManager_new))) = [DebugPolicy ''safe'']
   \<and> policies (capsem_integration_security_manager ''safe''
       (example_startup (Some ''/no/such/dir'') False (Inr SecurityManager_new)))
       = [DebugPolicy ''safe'']
   \<and> policies (capsem_integration_security_manager ''safe''
       (example_startup (Some ''/etc/capsem'') True (Inl ()))) = [DebugPolicy ''safe'']"
proof -
  have unset: "policies (capsem_integration_security_manager ''safe''
       (example_startup None True (Inr SecurityManager_new))) = [DebugPolicy ''safe'']"
    using default_policy_without_usable_config
      [where st = "example_startup None True (Inr SecurityManager_new)"
         and safe_details = "''safe''"]
    by (simp add: example_startup_def)
  have missing: "policies (capsem_integration_security_manager ''safe''
       (example_startup (Some ''/no/such/dir'') False (Inr SecurityManager_new)))
       = [DebugPolicy ''safe'']"
    using default_policy_without_usable_config
      [where st = "example_startup (Some ''/no/such/dir'') False (Inr SecurityManager_new)"
         and safe_details = "''safe''"]
    by (simp add: example_startup_def)
  have failing: "policies (capsem_integration_security_manager ''safe''
       (example_startup (Some ''/etc/capsem'') True (Inl ()))) = [DebugPolicy ''safe'']"
    using default_policy_without_usable_config
      [where st = "example_startup (Some ''/etc/capsem'') True (Inl ())"
         and safe_details = "''safe''"]
    by (simp add: example_startup_def)
  from unset missing failing show ?thesis by simp
qed

text \<open>
  C10.  \<open>DebugPolicy.on_model_response\<close> returns \<open>BLOCK\<close> exactly when \<open>capsem_block\<close>
  occurs in the lower-cased response text; the thoughts do not matter, so a response
  whose trigger is only in the thoughts is allowed.
\<close>

theorem debug_on_model_response_reads_response_only:
  "(verdict (on_model_response (DebugPolicy safe_details) invocation_id agent response thoughts
        media) = BLOCK
      \<longleftrightarrow> py_in ''capsem_block'' (lower response))
   \<and> (\<not> py_in ''capsem_block'' (lower response)
        \<longrightarrow> verdict (on_model_response (DebugPolicy safe_details) invocation_id agent response
              thoughts media) = ALLOW)
   \<and> on_model_response (DebugPolicy safe_details) invocation_id agent response thoughts media
       = on_model_response (DebugPolicy safe_details) invocation_id agent response thoughts'
           media"
  by (simp add: DebugPolicy_def DebugPolicy_on_model_response_def DEFAULT_SAFE_DECISION_def)

theorem debug_on_model_response_witness:
  "\<not> py_in ''capsem_block'' (lower ''All fine'')
   \<and> py_in ''capsem_block'' (lower ''plan: say Capsem_Block'')
   \<and> verdict (on_model_response (DebugPolicy ''safe'') ''req-1'' example_agent
        ''All fine'' ''plan: say Capsem_Block'' []) = ALLOW"
  using debug_on_model_response_reads_response_only
    [of "''safe''" "''req-1''" example_agent "''All fine''" "''plan: say Capsem_Block''" "[]"]
  by (simp add: lower_def lower_char_def)

lemma blocked_prompt_run:
  "generate_content ok_env (default_security_manager ''safe'') ''gemini''
     blocked_prompt_request =
   ([blocked_prompt_check],
    Inl (HTTPException 403
      ''Request blocked by security policy: Detected 'capsem_block' in prompt''))"
  by code_simp

lemma blocked_tool_stream:
  "stream_generate_content ok_env (default_security_manager ''safe'') ''gemini''
     (weather_tool_request ''weather_capsem_block_function'') =
   ([Evaluated
       (At_model_call ''req-1'' example_agent ''gemini'' []
          ''user: what is the weather in paris?'' [])
       \<lparr>verdict = ALLOW, reason = SAFE, details = ''safe''\<rparr>,
     blocked_tool_check],
    Inl (HTTPException 403
      ''Tool blocked by security policy: Detected 'capsem_block' in tool name''))"
  by code_simp

text \<open>
  C4 (as amended).  Whenever the decision of a gate has verdict \<open>BLOCK\<close>, the handler
  raises an HTTP 403 error whose detail is a fixed prefix followed by the details string
  of that decision; the reason is not part of the error.  When the gate is
  \<open>on_model_call\<close> the provider is never called, and a blocked streaming request never
  opens the stream.
\<close>

theorem block_raises_403_with_details:
  "(\<forall>i d. Evaluated i d \<in> set (fst (generate_content env sm model request))
        \<and> verdict d = BLOCK \<longrightarrow>
      snd (generate_content env sm model request)
        = Inl (HTTPException 403 (''Request blocked by security policy: '' @ details d))
      \<and> (at_model_call i \<longrightarrow>
           \<not> list_ex forwarded (fst (generate_content env sm model request))))
   \<and> (\<forall>i d. Evaluated i d \<in> set (fst (stream_generate_content env sm model request))
        \<and> verdict d = BLOCK \<longrightarrow>
      snd (stream_generate_content env sm model request)
        = Inl (HTTPException 403
            ((if at_tool_call i then ''Tool blocked by security policy: ''
              else ''Request blocked by security policy: '') @ details d))
      \<and> \<not> list_ex stream_opened (fst (stream_generate_content env sm model request)))
   \<and> (verdict decision = BLOCK \<longrightarrow>
        decide step decision request_id
          = raise (Raised (HTTPException 403
              (''Request blocked by security policy: '' @ details decision)))
        \<and> gemini_decide step decision request_id
          = raise (Raised (HTTPException 403
              (''Request blocked by security policy: '' @ details decision))))"
  using generate_content_blocked [of _ _ env sm model request]
    stream_generate_content_blocked [of _ _ env sm model request]
  by (auto simp: request_blocked_def tool_blocked_def decide_def gemini_decide_def)

theorem block_raises_403_witness:
  "blocked_prompt_check
     \<in> set (fst (generate_content ok_env (default_security_manager ''safe'') ''gemini''
          blocked_prompt_request))
   \<and> snd (generate_content ok_env (default_security_manager ''safe'') ''gemini''
          blocked_prompt_request)
       = Inl (HTTPException 403
           ''Request blocked by security policy: Detected 'capsem_block' in prompt'')
   \<and> \<not> list_ex forwarded
         (fst (generate_content ok_env (default_security_manager ''safe'') ''gemini''
            blocked_prompt_request))
   \<and> blocked_tool_check
     \<in> set (fst (stream_generate_content ok_env (default_security_manager ''safe'')
          ''gemini'' (weather_tool_request ''weather_capsem_block_function'')))
   \<and> snd (stream_generate_content ok_env (default_security_manager ''safe'') ''gemini''
          (weather_tool_request ''weather_capsem_block_function''))
       = Inl (HTTPException 403
           ''Tool blocked by security policy: Detected 'capsem_block' in tool name'')
   \<and> \<not> list_ex stream_opened
         (fst (stream_generate_content ok_env (default_security_manager ''safe'') ''gemini''
            (weather_tool_request ''weather_capsem_block_function'')))"
proof -
  have in_run: "blocked_prompt_check
     \<in> set (fst (generate_content ok_env (default_security_manager ''safe'') ''gemini''
          blocked_prompt_request))"
    by (simp add: blocked_prompt_run)
  have in_stream: "blocked_tool_check
     \<in> set (fst (stream_generate_content ok_env (default_security_manager ''safe'')
          ''gemini'' (weather_tool_request ''weather_capsem_block_function'')))"
    by (simp add: blocked_tool_stream)
  note plain = block_raises_403_with_details
    [where env = ok_env and sm = "default_security_manager ''safe''" and model = "''gemini''"
       and request = blocked_prompt_request]
  note streaming = block_raises_403_with_details
    [where env = ok_env and sm = "default_security_manager ''safe''" and model = "''gemini''"
       and request = "weather_tool_request ''weather_capsem_block_function''"]
  from plain in_run have first:
    "snd (generate_content ok_env (default_security_manager ''safe'') ''gemini''
          blocked_prompt_request)
       = Inl (HTTPException 403
           ''Request blocked by security policy: Detected 'capsem_block' in prompt'')
     \<and> \<not> list_ex forwarded
         (fst (generate_content ok_env (default_security_manager ''safe'') ''gemini''
            blocked_prompt_request))"
    unfolding blocked_prompt_check_def by fastforce
  from streaming in_stream have second:
    "snd (stream_generate_content ok_env (default_security_manager ''safe'') ''gemini''
          (weather_tool_request ''weather_capsem_block_function''))
       = Inl (HTTPException 403
           ''Tool blocked by security policy: Detected 'capsem_block' in tool name'')
     \<and> \<not> list_ex stream_opened
         (fst (stream_generate_content ok_env (default_security_manager ''safe'') ''gemini''
            (weather_tool_request ''weather_capsem_block_function'')))"
    unfolding blocked_tool_check_def by fastforce
  from in_run in_stream first second show ?thesis by blast
qed

text \<open>
  C4 as stated fails: the error carries no reason.  The detail of the 403 raised for a
  blocked prompt does not contain the name of the reason, and no function of the error
  can return the reason of the decision, since two \<open>BLOCK\<close> decisions that differ only in
  their reason raise the same error.
\<close>

theorem error_body_omits_reason:
  "snd (generate_content ok_env (default_security_manager ''safe'') ''gemini''
          blocked_prompt_request)
       = Inl (HTTPException 403
           ''Request blocked by security policy: Detected 'capsem_block' in prompt'')
   \<and> \<not> py_in ''POLICY_VIOLATION''
         ''Request blocked by security policy: Detected 'capsem_block' in prompt''
   \<and> \<not> (\<exists>reason_of_body. \<forall>d. verdict d = BLOCK \<longrightarrow>
          (\<forall>h. snd (gemini_decide ''on_model_call'' d ''req-1'') = Inl (Raised h)
             \<longrightarrow> reason_of_body h = reason d))"
proof -
  have "\<not> (\<exists>reason_of_body. \<forall>d. verdict d = BLOCK \<longrightarrow>
          (\<forall>h. snd (gemini_decide ''on_model_call'' d ''req-1'') = Inl (Raised h)
             \<longrightarrow> reason_of_body h = reason d))"
  proof
    assume "\<exists>reason_of_body. \<forall>d. verdict d = BLOCK \<longrightarrow>
          (\<forall>h. snd (gemini_decide ''on_model_call'' d ''req-1'') = Inl (Raised h)
             \<longrightarrow> reason_of_body h = reason d)"
    then obtain f where f: "\<And>d h. verdict d = BLOCK \<Longrightarrow>
        snd (gemini_decide ''on_model_call'' d ''req-1'') = Inl (Raised h) \<Longrightarrow> f h = reason d"
      by blast
    have "f (HTTPException 403 ''Request blocked by security policy: x'') = SAFE"
      using f [of "\<lparr>verdict = BLOCK, reason = SAFE, details = ''x''\<rparr>"]
      by (simp add: gemini_decide_def)
    moreover have "f (HTTPException 403 ''Request blocked by security policy: x'')
        = POLICY_VIOLATION"
      using f [of "\<lparr>verdict = BLOCK, reason = POLICY_VIOLATION, details = ''x''\<rparr>"]
      by (simp add: gemini_decide_def)
    ultimately show False by simp
  qed
  moreover have "\<not> py_in ''POLICY_VIOLATION''
         ''Request blocked by security policy: Detected 'capsem_block' in prompt''"
    by code_simp
  ultimately show ?thesis by (simp add: blocked_prompt_run)
qed

lemma default_manager_on_model_call:
  "SecurityManager_on_model_call sd' (default_security_manager sd) invocation_id agent model
       system_instructions prompt media
     = DebugPolicy_on_model_call sd invocation_id agent model system_instructions prompt media"
  by (simp add: SecurityManager_on_model_call_def default_security_manager_def add_policy_def
      SecurityManager_new_def aggregate_def DebugPolicy_def)

lemma default_manager_on_tool_call:
  "SecurityManager_on_tool_call sd' (default_security_manager sd) invocation_id agent tool args
     = DebugPolicy_on_tool_call sd invocation_id agent tool args"
  by (simp add: SecurityManager_on_tool_call_def default_security_manager_def add_policy_def
      SecurityManager_new_def aggregate_def DebugPolicy_def)

lemma first_blocking_Some: "list_ex blocking es \<Longrightarrow> \<exists>d. first_blocking es = Some d"
  using first_blocking_None [of es] by (cases "first_blocking es") auto

lemma first_blocking_mem:
  "first_blocking es = Some d \<Longrightarrow> \<exists>i. Evaluated i d \<in> set es \<and> verdict d = BLOCK"
  by (induction es rule: first_blocking.induct) (auto split: if_splits)

lemma checked_not_Nil: "list_ex blocking es \<Longrightarrow> checked es \<noteq> []"
  by (induction es) auto

lemma last_checked:
  "list_ex blocking es \<Longrightarrow> blocking (last (checked es)) \<and> last (checked es) \<in> set es"
  by (induction es) (auto simp: checked_not_Nil)

lemma trigger_in_detected: "py_in DEBUG_TRIGGER (detected_in place)"
proof -
  have "sublist DEBUG_TRIGGER
      ((''Detected '' @ [CHR 0x27]) @ DEBUG_TRIGGER @ ([CHR 0x27] @ '' in '' @ place))"
    by (rule sublist_appendI)
  then show ?thesis by (simp add: py_in_sublist detected_in_def)
qed

lemma candidate_parts_mem:
  "candidate \<in> set cs \<Longrightarrow> candidate_content candidate = Some content \<Longrightarrow>
   content_parts content = Some ps \<Longrightarrow> part \<in> set ps \<Longrightarrow> part \<in> set (candidate_parts cs)"
  by (induction cs) auto

text \<open>
  C1.  A non-streaming request that carries an API key and a JSON body, and whose
  assembled visible prompt contains \<open>capsem_block\<close> case-insensitively, is answered with
  HTTP 403 when the default \<open>DebugPolicy\<close> is installed: the \<open>on_model_call\<close> gate yields
  \<open>BLOCK\<close> for that prompt, and the provider is never invoked.
\<close>

theorem trigger_in_prompt_blocks:
  assumes "x_goog_api_key request \<noteq> []"
    and "request_json request = Inr b"
    and "py_in ''capsem_block'' (lower (assembled_prompt b))"
  shows "verdict (SecurityManager_on_model_call (safe_text env) (default_security_manager sd)
            invocation_id agent model system_instructions (assembled_prompt b) media) = BLOCK
     \<and> (\<exists>d. snd (generate_content env (default_security_manager sd) model request)
            = Inl (HTTPException 403 d))
     \<and> \<not> list_ex forwarded
           (fst (generate_content env (default_security_manager sd) model request))"
proof -
  let ?sm = "default_security_manager sd"
  let ?agent = "request_agent env (x_goog_api_key request) b"
  let ?pre = "preflight_checks env ?sm (uuid4_hex env) ?agent model b"
  have gate: "verdict (SecurityManager_on_model_call s ?sm i a m si (assembled_prompt b) md)
      = BLOCK" for s i a m si md
    using assms(3) by (simp add: default_manager_on_model_call DebugPolicy_on_model_call_def)
  have "blocking (model_call_check env ?sm (uuid4_hex env) ?agent model (assembled_prompt b))"
    by (simp add: model_call_check_def gate)
  then have "list_ex blocking ?pre"
    by (simp add: preflight_checks_def)
  then obtain d where d: "first_blocking ?pre = Some d"
    using first_blocking_Some by blast
  with assms(1,2) have run: "generate_content env ?sm model request
      = (checked ?pre, Inl (HTTPException 403 (request_blocked @ details d)))"
    by (simp add: generate_content_run)
  have "\<not> list_ex forwarded (checked ?pre)"
    using checked_subset [of ?pre]
      preflight_checks_kind(1) [of _ env ?sm "uuid4_hex env" ?agent model b]
    by (auto simp: list_ex_iff)
  with run gate show ?thesis by simp
qed

theorem trigger_in_prompt_witness:
  "x_goog_api_key blocked_prompt_request \<noteq> []
   \<and> py_in ''capsem_block'' (lower ''what is the weather? capsem_block'')
   \<and> (\<exists>d. snd (generate_content ok_env (default_security_manager ''safe'') ''gemini''
            blocked_prompt_request) = Inl (HTTPException 403 d))
   \<and> \<not> list_ex forwarded
         (fst (generate_content ok_env (default_security_manager ''safe'') ''gemini''
            blocked_prompt_request))"
proof -
  define b where "b = \<lparr>body_tools = None,
     body_contents = Some [entry ''user'' [text_part ''what is the weather? capsem_block'']]\<rparr>"
  have key: "x_goog_api_key blocked_prompt_request \<noteq> []"
    by (simp add: blocked_prompt_request_def example_request_def)
  have body: "request_json blocked_prompt_request = Inr b"
    by (simp add: blocked_prompt_request_def example_request_def b_def)
  have prompt: "assembled_prompt b = ''what is the weather? capsem_block''"
    by (simp add: assembled_prompt_def b_def get_contents_def entry_def text_part_def
        split_part_def)
  have trigger: "py_in ''capsem_block'' (lower ''what is the weather? capsem_block'')"
    by (simp add: lower_def lower_char_def)
  from trigger_in_prompt_blocks [OF key body, of ok_env "''safe''" _ _ "''gemini''"]
    prompt trigger key
  show ?thesis by simp
qed

text \<open>
  C9.  When the provider's response to a non-streaming request has no candidates (the
  list is absent or empty), neither \<open>on_tool_call\<close> nor \<open>on_model_response\<close> is evaluated,
  and a request that reached the provider gets the response back at once: the call of the
  provider is the last event.
\<close>

theorem no_candidates_returns_at_once:
  assumes "x_goog_api_key request \<noteq> []"
    and "request_json request = Inr b"
    and "provider_generate_content env model b (x_goog_api_key request) = Inr (Some response)"
    and "candidates response = None \<or> candidates response = Some []"
  shows "\<not> list_ex (evaluated_at at_tool_call) (fst (generate_content env sm model request))
     \<and> \<not> list_ex (evaluated_at at_model_response)
           (fst (generate_content env sm model request))
     \<and> (list_ex forwarded (fst (generate_content env sm model request)) \<longrightarrow>
          snd (generate_content env sm model request) = Inr (Returned response)
          \<and> last (fst (generate_content env sm model request))
              = Forwarded model b (x_goog_api_key request))"
proof -
  let ?agent = "request_agent env (x_goog_api_key request) b"
  let ?pre = "preflight_checks env sm (uuid4_hex env) ?agent model b"
  have post: "postflight_checks env sm (uuid4_hex env) ?agent response = []"
    using assms(4) by (auto simp: postflight_checks_def)
  have kinds: "\<not> list_ex forwarded es \<and> \<not> list_ex (evaluated_at at_tool_call) es
      \<and> \<not> list_ex (evaluated_at at_model_response) es" if "set es \<subseteq> set ?pre" for es
    using that preflight_checks_kind [of _ env sm "uuid4_hex env" ?agent model b]
    by (auto simp: list_ex_iff)
  show ?thesis
  proof (cases "first_blocking ?pre")
    case (Some d)
    with assms(1,2) have "fst (generate_content env sm model request) = checked ?pre"
      by (simp add: generate_content_run)
    with kinds [OF checked_subset] show ?thesis by simp
  next
    case None
    with assms(1,2,3) post have "generate_content env sm model request
        = (?pre @ [Forwarded model b (x_goog_api_key request)], Inr (Returned response))"
      by (simp add: generate_content_run)
    with kinds [of ?pre] show ?thesis by simp
  qed
qed

lemma no_candidates_run:
  "generate_content no_candidates_env (default_security_manager ''safe'') ''gemini''
     hello_request =
   ([Evaluated (At_model_call ''req-1'' example_agent ''gemini'' [] ''hello'' [])
       \<lparr>verdict = ALLOW, reason = SAFE, details = ''safe''\<rparr>,
     Forwarded ''gemini'' \<lparr>body_tools = None,
        body_contents = Some [entry ''user'' [text_part ''hello'']]\<rparr> ''key-1''],
    Inr (Returned \<lparr>candidates = Some []\<rparr>))"
  by code_simp

theorem no_candidates_witness:
  "x_goog_api_key hello_request \<noteq> []
   \<and> list_ex forwarded
       (fst (generate_content no_candidates_env (default_security_manager ''safe'') ''gemini''
          hello_request))
   \<and> \<not> list_ex (evaluated_at at_tool_call)
       (fst (generate_content no_candidates_env (default_security_manager ''safe'') ''gemini''
          hello_request))
   \<and> \<not> list_ex (evaluated_at at_model_response)
       (fst (generate_content no_candidates_env (default_security_manager ''safe'') ''gemini''
          hello_request))
   \<and> snd (generate_content no_candidates_env (default_security_manager ''safe'') ''gemini''
          hello_request) = Inr (Returned \<lparr>candidates = Some []\<rparr>)"
proof -
  define b where "b = \<lparr>body_tools = None,
     body_contents = Some [entry ''user'' [text_part ''hello'']]\<rparr>"
  have key: "x_goog_api_key hello_request \<noteq> []"
    by (simp add: hello_request_def example_request_def)
  have body: "request_json hello_request = Inr b"
    by (simp add: hello_request_def example_request_def b_def)
  have upstream: "provider_generate_content no_candidates_env ''gemini'' b
      (x_goog_api_key hello_request) = Inr (Some \<lparr>candidates = Some []\<rparr>)"
    by (simp add: no_candidates_env_def example_env_def)
  have reached: "list_ex forwarded
       (fst (generate_content no_candidates_env (default_security_manager ''safe'') ''gemini''
          hello_request))"
    by (simp add: no_candidates_run)
  from no_candidates_returns_at_once [OF key body upstream, of "default_security_manager ''safe''"]
    reached key
  show ?thesis by simp
qed

lemma call_check_details:
  assumes "e \<in> set (part_checks env (default_security_manager sd) request_id agent ps)"
    and "e = Evaluated i d" and "verdict d = BLOCK"
  shows "py_in DEBUG_TRIGGER (details d)"
proof -
  from part_checks_form [OF assms(1)] obtain fc where
    "e = call_check env (default_security_manager sd) request_id agent fc"
    by blast
  with assms(2,3) show ?thesis
    by (auto simp: call_check_def default_manager_on_tool_call DebugPolicy_on_tool_call_def
        DEFAULT_SAFE_DECISION_def trigger_in_detected split: if_splits)
qed

text \<open>
  C5.  With the default \<open>DebugPolicy\<close> installed, a non-streaming request that reached the
  provider and whose response holds a function-call part with \<open>capsem_block\<close> in its name
  is blocked at an \<open>on_tool_call\<close> gate: the run ends there with HTTP 403, the details
  name the trigger token, and \<open>on_model_response\<close> is never evaluated.
\<close>

theorem trigger_tool_call_blocked_before_model_response:
  assumes "x_goog_api_key request \<noteq> []"
    and "request_json request = Inr b"
    and "provider_generate_content env model b (x_goog_api_key request) = Inr (Some response)"
    and "list_ex forwarded
           (fst (generate_content env (default_security_manager sd) model request))"
    and "candidates response = Some cs"
    and "candidate \<in> set cs"
    and "candidate_content candidate = Some content"
    and "content_parts content = Some ps"
    and "part \<in> set ps"
    and "part_function_call part = Some fc"
    and "py_in DEBUG_TRIGGER (fc_name fc)"
  shows "(\<exists>d. snd (generate_content env (default_security_manager sd) model request)
              = Inl (HTTPException 403 (''Request blocked by security policy: '' @ d))
            \<and> py_in DEBUG_TRIGGER d)
     \<and> \<not> list_ex (evaluated_at at_model_response)
           (fst (generate_content env (default_security_manager sd) model request))
     \<and> evaluated_at at_tool_call
          (last (fst (generate_content env (default_security_manager sd) model request)))
     \<and> blocking
          (last (fst (generate_content env (default_security_manager sd) model request)))"
proof -
  let ?sm = "default_security_manager sd"
  let ?agent = "request_agent env (x_goog_api_key request) b"
  let ?pre = "preflight_checks env ?sm (uuid4_hex env) ?agent model b"
  let ?calls = "part_checks env ?sm (uuid4_hex env) ?agent (candidate_parts cs)"
  let ?post = "postflight_checks env ?sm (uuid4_hex env) ?agent response"
  have pre_kinds: "\<not> list_ex forwarded es \<and> \<not> list_ex (evaluated_at at_model_response) es"
    if "set es \<subseteq> set ?pre" for es
    using that preflight_checks_kind [of _ env ?sm "uuid4_hex env" ?agent model b]
    by (auto simp: list_ex_iff)
  have passed: "first_blocking ?pre = None"
  proof (cases "first_blocking ?pre")
    case None
    then show ?thesis .
  next
    case (Some d)
    with assms(1,2) have "fst (generate_content env ?sm model request) = checked ?pre"
      by (simp add: generate_content_run)
    with assms(4) pre_kinds [OF checked_subset] show ?thesis by simp
  qed
  have "cs \<noteq> []" using assms(6) by auto
  with assms(5) have post: "?post = ?calls @
      [model_response_check env ?sm (uuid4_hex env) ?agent (candidate_parts cs)]"
    by (simp add: postflight_checks_def)
  have "part \<in> set (candidate_parts cs)"
    using assms(6,7,8,9) by (rule candidate_parts_mem)
  then have mem: "call_check env ?sm (uuid4_hex env) ?agent fc \<in> set ?calls"
    using assms(10) by (rule part_checks_mem)
  have "py_in DEBUG_TRIGGER (lower (fc_name fc))"
    using py_in_lower [OF assms(11)] by (simp add: DEBUG_TRIGGER_def lower_trigger)
  then have "blocking (call_check env ?sm (uuid4_hex env) ?agent fc)"
    by (simp add: call_check_def default_manager_on_tool_call DebugPolicy_on_tool_call_def)
  with mem have blocked: "list_ex blocking ?calls" by (auto simp: list_ex_iff)
  then obtain d where d: "first_blocking ?calls = Some d"
    using first_blocking_Some by blast
  from first_blocking_mem [OF d] obtain i where
    i: "Evaluated i d \<in> set ?calls" "verdict d = BLOCK" by blast
  from call_check_details [OF i(1) refl i(2)] have trigger: "py_in DEBUG_TRIGGER (details d)" .
  from blocked have chk: "checked ?post = checked ?calls"
    by (simp add: post checked_append)
  from d have fb: "first_blocking ?post = Some d"
    by (simp add: post first_blocking_append)
  from assms(1,2,3) passed chk fb have run: "generate_content env ?sm model request
      = (?pre @ Forwarded model b (x_goog_api_key request) # checked ?calls,
         Inl (HTTPException 403 (request_blocked @ details d)))"
    by (simp add: generate_content_run)
  have calls_kind: "evaluated_at at_tool_call e" if "e \<in> set ?calls" for e
    using that by (rule part_checks_kind)
  have no_response: "\<not> list_ex (evaluated_at at_model_response) (checked ?calls)"
  proof
    assume "list_ex (evaluated_at at_model_response) (checked ?calls)"
    then obtain e where e: "e \<in> set (checked ?calls)" "evaluated_at at_model_response e"
      by (auto simp: list_ex_iff)
    with checked_subset [of ?calls] have "evaluated_at at_tool_call e"
      using calls_kind by auto
    with e(2) show False by (cases e; cases "case e of Evaluated i d \<Rightarrow> i") auto
  qed
  from last_checked [OF blocked] calls_kind
  have last_ok: "blocking (last (checked ?calls))
      \<and> evaluated_at at_tool_call (last (checked ?calls))" by simp
  from run trigger no_response last_ok pre_kinds [of ?pre] checked_not_Nil [OF blocked]
  show ?thesis by (auto simp: request_blocked_def)
qed

lemma tool_call_run:
  "generate_content (example_env tool_call_response) (default_security_manager ''safe'')
     ''gemini'' weather_request =
   ([Evaluated
       (At_model_call ''req-1'' example_agent ''gemini'' [] ''what is the weather in paris?'' [])
       \<lparr>verdict = ALLOW, reason = SAFE, details = ''safe''\<rparr>,
     Forwarded ''gemini'' \<lparr>body_tools = None,
        body_contents = Some [entry ''user'' [text_part ''what is the weather in paris?'']]\<rparr>
       ''key-1'',
     Evaluated
       (At_tool_call ''req-1'' example_agent
          \<lparr>tool_name = ''weather_capsem_block_function'',
           tool_description = ''Function call from model'',
           tool_parameters = [(''location'', PyStr ''Paris'')]\<rparr>
          [(''location'', PyStr ''Paris'')])
       \<lparr>verdict = BLOCK, reason = POLICY_VIOLATION,
        details = ''Detected 'capsem_block' in tool name''\<rparr>],
    Inl (HTTPException 403
      ''Request blocked by security policy: Detected 'capsem_block' in tool name''))"
  by code_simp

theorem trigger_tool_call_witness:
  "x_goog_api_key weather_request \<noteq> []
   \<and> list_ex forwarded
       (fst (generate_content (example_env tool_call_response)
          (default_security_manager ''safe'') ''gemini'' weather_request))
   \<and> py_in DEBUG_TRIGGER ''weather_capsem_block_function''
   \<and> (\<exists>d. snd (generate_content (example_env tool_call_response)
                (default_security_manager ''safe'') ''gemini'' weather_request)
              = Inl (HTTPException 403 (''Request blocked by security policy: '' @ d))
            \<and> py_in DEBUG_TRIGGER d)
   \<and> \<not> list_ex (evaluated_at at_model_response)
         (fst (generate_content (example_env tool_call_response)
            (default_security_manager ''safe'') ''gemini'' weather_request))"
proof -
  define b where "b = \<lparr>body_tools = None,
     body_contents = Some [entry ''user'' [text_part ''what is the weather in paris?'']]\<rparr>"
  define part where
    "part = call_part ''weather_capsem_block_function'' [(''location'', PyStr ''Paris'')]"
  define ps where "ps = [text_part ''calling'', part]"
  define content where
    "content = \<lparr>content_role = Some ''model'', content_parts = Some ps\<rparr>"
  define candidate where "candidate = \<lparr>candidate_content = Some content\<rparr>"
  define fc where "fc = \<lparr>fc_name = ''weather_capsem_block_function'',
     fc_args = Some [(''location'', PyStr ''Paris'')]\<rparr>"
  have key: "x_goog_api_key weather_request \<noteq> []"
    by (simp add: weather_request_def example_request_def)
  have body: "request_json weather_request = Inr b"
    by (simp add: weather_request_def example_request_def b_def)
  have upstream: "provider_generate_content (example_env tool_call_response) ''gemini'' b
      (x_goog_api_key weather_request) = Inr (Some tool_call_response)"
    by (simp add: example_env_def)
  have reached: "list_ex forwarded
       (fst (generate_content (example_env tool_call_response)
          (default_security_manager ''safe'') ''gemini'' weather_request))"
    by (simp add: tool_call_run)
  have cands: "candidates tool_call_response = Some [candidate]"
    by (simp add: tool_call_response_def example_response_def candidate_def content_def
        ps_def part_def)
  have c1: "candidate \<in> set [candidate]" by simp
  have c2: "candidate_content candidate = Some content" by (simp add: candidate_def)
  have c3: "content_parts content = Some ps" by (simp add: content_def)
  have c4: "part \<in> set ps" by (simp add: ps_def)
  have c5: "part_function_call part = Some fc" by (simp add: part_def call_part_def fc_def)
  have name: "py_in DEBUG_TRIGGER ''weather_capsem_block_function''"
    by (simp add: DEBUG_TRIGGER_def)
  then have c6: "py_in DEBUG_TRIGGER (fc_name fc)" by (simp add: fc_def)
  from trigger_tool_call_blocked_before_model_response
    [OF key body upstream reached cands c1 c2 c3 c4 c5 c6] key reached name
  show ?thesis by simp
qed

lemma description_or_placeholder_nonempty: "description_or_placeholder d \<noteq> []"
  by (simp add: description_or_placeholder_def split: option.splits)

lemma tool_of_func_described: "described (tool_of_func func)"
  by (simp add: described_def tool_of_func_def description_or_placeholder_nonempty)

lemma capsem_tools_described:
  "list_all described acc \<Longrightarrow> list_all described (capsem_tools tds acc)"
  by (induction tds arbitrary: acc) (auto simp: tool_of_func_described)

lemma request_agent_described: "list_all described (agent_tools (request_agent env api_key b))"
  by (simp add: request_agent_def create_agent_def capsem_tools_described)

lemma preflight_checks_described:
  assumes "list_all described (agent_tools agent)"
    and "e \<in> set (preflight_checks env sm request_id agent model b)"
  shows "list_all described (tools_of e)"
  using assms response_checks_form [of e env sm request_id agent "get_contents b"]
  by (auto simp: preflight_checks_def model_call_check_def response_check_def described_def)

lemma postflight_checks_described:
  assumes "list_all described (agent_tools agent)"
    and "e \<in> set (postflight_checks env sm request_id agent response)"
  shows "list_all described (tools_of e)"
proof -
  from postflight_checks_form [OF assms(2)] obtain cs where
    "e \<in> set (part_checks env sm request_id agent (candidate_parts cs))
       \<or> e = model_response_check env sm request_id agent (candidate_parts cs)"
    by blast
  then show ?thesis
  proof
    assume "e \<in> set (part_checks env sm request_id agent (candidate_parts cs))"
    from part_checks_form [OF this] assms(1) show ?thesis
      by (auto simp: call_check_def described_def)
  next
    assume "e = model_response_check env sm request_id agent (candidate_parts cs)"
    with assms(1) show ?thesis by (simp add: model_response_check_def)
  qed
qed

lemma stream_preflight_checks_described:
  assumes "list_all described (agent_tools agent)"
    and "e \<in> set (stream_preflight_checks env sm request_id agent model b)"
  shows "list_all described (tools_of e)"
  using assms
  by (auto simp: stream_preflight_checks_def model_call_check_def tool_precheck_def
      tool_of_func_described)

lemma generate_content_described:
  assumes "e \<in> set (fst (generate_content env sm model request))"
  shows "list_all described (tools_of e)"
proof -
  from assms have key: "x_goog_api_key request \<noteq> []"
    by (auto simp: generate_content_run)
  from assms key obtain b where b: "request_json request = Inr b"
    by (cases "request_json request") (auto simp: generate_content_run)
  let ?agent = "request_agent env (x_goog_api_key request) b"
  let ?pre = "preflight_checks env sm (uuid4_hex env) ?agent model b"
  note agent = request_agent_described [of env "x_goog_api_key request" b]
  show ?thesis
  proof (cases "first_blocking ?pre")
    case (Some d)
    with key b assms have "e \<in> set (checked ?pre)" by (simp add: generate_content_run)
    with checked_subset [of ?pre] have "e \<in> set ?pre" by auto
    with agent show ?thesis by (rule preflight_checks_described)
  next
    case None
    with key b assms have "e \<in> set ?pre \<or> e = Forwarded model b (x_goog_api_key request)
        \<or> (\<exists>response. e \<in> set (checked
              (postflight_checks env sm (uuid4_hex env) ?agent response)))"
      by (auto simp: generate_content_run split: sum.splits option.splits)
    then show ?thesis
    proof (elim disjE exE)
      assume "e \<in> set ?pre"
      with agent show ?thesis by (rule preflight_checks_described)
    next
      assume "e = Forwarded model b (x_goog_api_key request)"
      then show ?thesis by simp
    next
      fix response
      assume "e \<in> set (checked (postflight_checks env sm (uuid4_hex env) ?agent response))"
      with checked_subset
      have "e \<in> set (postflight_checks env sm (uuid4_hex env) ?agent response)" by blast
      with agent show ?thesis by (rule postflight_checks_described)
    qed
  qed
qed

lemma stream_generate_content_described:
  assumes "e \<in> set (fst (stream_generate_content env sm model request))"
  shows "list_all described (tools_of e)"
proof -
  from assms have key: "x_goog_api_key request \<noteq> []"
    by (auto simp: stream_generate_content_run)
  from assms key obtain b where b: "request_json request = Inr b"
    by (cases "request_json request") (auto simp: stream_generate_content_run)
  let ?agent = "request_agent env (x_goog_api_key request) b"
  let ?pre = "stream_preflight_checks env sm (uuid4_hex env) ?agent model b"
  note agent = request_agent_described [of env "x_goog_api_key request" b]
  from key b assms have "e \<in> set (checked ?pre) \<or> e \<in> set ?pre
      \<or> e = Stream_opened model b (x_goog_api_key request)"
    by (auto simp: stream_generate_content_run split: option.splits)
  then show ?thesis
    using stream_preflight_checks_described [OF agent] checked_subset [of ?pre]
    by (elim disjE) auto
qed

text \<open>
  C8.  Every \<open>Tool\<close> that a handler passes into a policy evaluation, as the tool of the
  call or among the tools of the agent, has a non-empty description; a function
  definition with no description, or an empty one, gets the placeholder.
\<close>

theorem tools_passed_to_policies_are_described:
  "list_all (\<lambda>e. list_all described (tools_of e))
     (fst (generate_content env sm model request))
   \<and> list_all (\<lambda>e. list_all described (tools_of e))
     (fst (stream_generate_content env sm model request))
   \<and> described (tool_of_func func)
   \<and> (fd_description func = None \<or> fd_description func = Some [] \<longrightarrow>
        tool_description (tool_of_func func) = ''No description provided'')"
proof -
  have "tool_description (tool_of_func func) = ''No description provided''"
    if "fd_description func = None \<or> fd_description func = Some []"
    using that by (auto simp: tool_of_func_def description_or_placeholder_def)
  then show ?thesis
    using generate_content_described [of _ env sm model request]
      stream_generate_content_described [of _ env sm model request]
      tool_of_func_described [of func]
    by (simp add: list_all_iff)
qed

theorem tools_described_witness:
  "fd_description \<lparr>fd_name = Some ''get_weather'', fd_description = None,
       fd_parameters = None\<rparr> = None
   \<and> tool_description (tool_of_func \<lparr>fd_name = Some ''get_weather'', fd_description = None,
       fd_parameters = None\<rparr>) = ''No description provided''
   \<and> list_all (\<lambda>e. list_all described (tools_of e))
     (fst (generate_content ok_env (default_security_manager ''safe'') ''gemini''
        openai_tool_request))
   \<and> list_all (\<lambda>e. list_all described (tools_of e))
     (fst (stream_generate_content ok_env (default_security_manager ''safe'') ''gemini''
        openai_tool_request))"
  using tools_passed_to_policies_are_described
    [where env = ok_env and sm = "default_security_manager ''safe''" and model = "''gemini''"
       and request = openai_tool_request
       and func = "\<lparr>fd_name = Some ''get_weather'', fd_description = None,
         fd_parameters = None\<rparr>"]
  by simp

text \<open>
  The order of events of the streaming handler, whatever prompt it assembles: the
  evaluation of \<open>on_model_call\<close> and of \<open>on_tool_call\<close> for every declared function come
  before the stream is opened; at the first \<open>BLOCK\<close> the handler raises HTTP 403 and the
  stream is never opened; otherwise opening the stream is the last event and the chunks
  of the provider are the response.
\<close>

lemma streaming_gates_before_stream:
  assumes "x_goog_api_key request \<noteq> []"
    and "request_json request = Inr b"
  shows "fst (stream_generate_content env sm model request)
       = checked (stream_preflight_checks env sm (uuid4_hex env)
                    (request_agent env (x_goog_api_key request) b) model b)
         @ (if list_ex blocking
                 (stream_preflight_checks env sm (uuid4_hex env)
                    (request_agent env (x_goog_api_key request) b) model b)
            then [] else [Stream_opened model b (x_goog_api_key request)])
     \<and> (list_ex blocking
           (stream_preflight_checks env sm (uuid4_hex env)
              (request_agent env (x_goog_api_key request) b) model b)
          \<longrightarrow> (\<exists>d. snd (stream_generate_content env sm model request)
                    = Inl (HTTPException 403 d)))
     \<and> (\<not> list_ex blocking
           (stream_preflight_checks env sm (uuid4_hex env)
              (request_agent env (x_goog_api_key request) b) model b)
          \<longrightarrow> snd (stream_generate_content env sm model request)
                = Inr (StreamingResponse
                    (provider_generate_content_stream env model b (x_goog_api_key request))))"
proof (cases "first_blocking (stream_preflight_checks env sm (uuid4_hex env)
                    (request_agent env (x_goog_api_key request) b) model b)")
  case None
  then have "\<not> list_ex blocking (stream_preflight_checks env sm (uuid4_hex env)
                    (request_agent env (x_goog_api_key request) b) model b)"
    by (simp add: first_blocking_None)
  with assms None show ?thesis
    by (simp add: stream_generate_content_run checked_all)
next
  case (Some d)
  then have "list_ex blocking (stream_preflight_checks env sm (uuid4_hex env)
                    (request_agent env (x_goog_api_key request) b) model b)"
    using first_blocking_None [of "stream_preflight_checks env sm (uuid4_hex env)
                    (request_agent env (x_goog_api_key request) b) model b"]
    by simp
  with assms Some show ?thesis
    by (simp add: stream_generate_content_run)
qed

lemma streaming_gates_instance:
  "x_goog_api_key (weather_tool_request ''get_weather'') \<noteq> []
   \<and> last (fst (stream_generate_content ok_env (default_security_manager ''safe'') ''gemini''
        (weather_tool_request ''get_weather'')))
      = Stream_opened ''gemini'' (weather_tool_body ''get_weather'') ''key-1''
   \<and> snd (stream_generate_content ok_env (default_security_manager ''safe'') ''gemini''
        (weather_tool_request ''get_weather''))
      = Inr (StreamingResponse [''chunk 1'', ''chunk 2''])
   \<and> \<not> list_ex stream_opened
        (fst (stream_generate_content ok_env (default_security_manager ''safe'') ''gemini''
           (weather_tool_request ''weather_capsem_block_function'')))
   \<and> (\<exists>d. snd (stream_generate_content ok_env (default_security_manager ''safe'') ''gemini''
           (weather_tool_request ''weather_capsem_block_function''))
         = Inl (HTTPException 403 d))"
proof -
  let ?sm = "default_security_manager ''safe''"
  have key: "x_goog_api_key (weather_tool_request n) \<noteq> []" for n
    by (simp add: weather_tool_request_def example_request_def)
  have k1: "x_goog_api_key (weather_tool_request n) = ''key-1''" for n
    by (simp add: weather_tool_request_def example_request_def)
  have body: "request_json (weather_tool_request n) = Inr (weather_tool_body n)" for n
    by (simp add: weather_tool_request_def example_request_def weather_tool_body_def)
  note passing = streaming_gates_before_stream
    [OF key body, of ok_env ?sm "''gemini''" "''get_weather''"]
  note failing = streaming_gates_before_stream
    [OF key body, of ok_env ?sm "''gemini''" "''weather_capsem_block_function''"]
  have pass: "\<not> list_ex blocking
      (stream_preflight_checks ok_env ?sm (uuid4_hex ok_env)
         (request_agent ok_env ''key-1'' (weather_tool_body ''get_weather''))
         ''gemini'' (weather_tool_body ''get_weather''))"
    by code_simp
  have fail: "list_ex blocking
      (stream_preflight_checks ok_env ?sm (uuid4_hex ok_env)
         (request_agent ok_env ''key-1'' (weather_tool_body ''weather_capsem_block_function''))
         ''gemini'' (weather_tool_body ''weather_capsem_block_function''))"
    by code_simp
  have streamed: "provider_generate_content_stream ok_env m bb k = [''chunk 1'', ''chunk 2'']"
    for m bb k
    by (simp add: ok_env_def example_env_def)
  have no_stream: "\<not> list_ex stream_opened
        (fst (stream_generate_content ok_env ?sm ''gemini''
           (weather_tool_request ''weather_capsem_block_function'')))"
    by (simp add: blocked_tool_stream blocked_tool_check_def)
  from failing fail have "\<exists>d. snd (stream_generate_content ok_env ?sm ''gemini''
           (weather_tool_request ''weather_capsem_block_function''))
         = Inl (HTTPException 403 d)"
    by (simp add: k1)
  with no_stream have blocked_part:
    "\<not> list_ex stream_opened
        (fst (stream_generate_content ok_env ?sm ''gemini''
           (weather_tool_request ''weather_capsem_block_function'')))
     \<and> (\<exists>d. snd (stream_generate_content ok_env ?sm ''gemini''
           (weather_tool_request ''weather_capsem_block_function''))
         = Inl (HTTPException 403 d))"
    by simp
  from passing pass have open_part:
    "last (fst (stream_generate_content ok_env ?sm ''gemini''
        (weather_tool_request ''get_weather'')))
      = Stream_opened ''gemini'' (weather_tool_body ''get_weather'') ''key-1''
     \<and> snd (stream_generate_content ok_env ?sm ''gemini''
        (weather_tool_request ''get_weather''))
      = Inr (StreamingResponse [''chunk 1'', ''chunk 2''])"
    by (simp add: streamed k1)
  from open_part blocked_part key [of "''get_weather''"] show ?thesis
    by simp
qed

text \<open>
  C6 at a failing input.  The streaming handler does not parse the request as
  \<open>generate_content\<close> does: on the contents \<open>[user: hello]\<close> it passes the prompt
  \<open>user: hello\<close> to \<open>on_model_call\<close>, where \<open>generate_content\<close> passes \<open>hello\<close>.
\<close>

theorem streaming_prompt_differs:
  "hd (fst (stream_generate_content ok_env (default_security_manager ''safe'') ''gemini''
        hello_request))
     = Evaluated (At_model_call ''req-1'' example_agent ''gemini'' [] ''user: hello'' []) allowed
   \<and> hd (fst (generate_content ok_env (default_security_manager ''safe'') ''gemini''
        hello_request))
     = Evaluated (At_model_call ''req-1'' example_agent ''gemini'' [] ''hello'' []) allowed
   \<and> join newline (stream_prompt_parts (get_contents hello_body) [])
     \<noteq> assembled_prompt hello_body"
  by code_simp

text \<open>
  C2 at a failing input.  The last entry holds two function responses; the first
  payload contains \<open>capsem_block\<close> and would be blocked, but \<open>on_tool_response\<close> is
  evaluated for the second part only and the request goes on to the provider.
\<close>

theorem only_last_function_response_checked:
  "generate_content ok_env (default_security_manager ''safe'') ''gemini''
     two_responses_request =
   ([Evaluated
       (At_tool_response ''req-1'' example_agent
          \<lparr>tool_name = ''get_time'', tool_description = ''Function response from model'',
           tool_parameters = []\<rparr>
          [(''time'', PyStr ''noon'')]) allowed,
     Evaluated (At_model_call ''req-1'' example_agent ''gemini'' [] [] []) allowed,
     Forwarded ''gemini''
       \<lparr>body_tools = None,
        body_contents = Some
          [entry ''user''
             [response_part ''get_weather'' [(''location'', PyStr ''capsem_block'')],
              response_part ''get_time'' [(''time'', PyStr ''noon'')]]]\<rparr>
       ''key-1'',
     Evaluated (At_model_response ''req-1'' example_agent ''ok'' [] []) allowed],
    Inr (Returned (example_response [text_part ''ok''])))
   \<and> verdict (SecurityManager_on_tool_response ''safe'' (default_security_manager ''safe'')
        ''req-1'' example_agent
        \<lparr>tool_name = ''get_weather'', tool_description = ''Function response from model'',
         tool_parameters = []\<rparr>
        [(''location'', PyStr ''capsem_block'')]) = BLOCK"
  by code_simp

text \<open>
  C3 at a failing input.  The text \<open>capsem_block\<close> is flagged as a thought.  The
  streaming handler puts it into the prompt it passes to \<open>on_model_call\<close> and the request
  is blocked; \<open>generate_content\<close> keeps it out of the prompt on the same contents.
\<close>

theorem streaming_prompt_includes_thoughts:
  "stream_generate_content ok_env (default_security_manager ''safe'') ''gemini''
     thought_request =
   ([Evaluated
       (At_model_call ''req-1'' example_agent ''gemini'' []
          (''model: capsem_block'' @ newline @ ''user: hello'') [])
       \<lparr>verdict = BLOCK, reason = POLICY_VIOLATION,
        details = ''Detected 'capsem_block' in prompt''\<rparr>],
    Inl (HTTPException 403
      ''Request blocked by security policy: Detected 'capsem_block' in prompt''))
   \<and> hd (fst (generate_content ok_env (default_security_manager ''safe'') ''gemini''
        thought_request))
     = Evaluated (At_model_call ''req-1'' example_agent ''gemini'' [] ''hello'' []) allowed"
  by code_simp

end
